theory Spec2Isabelle
  imports Complex_Main "HOL-Library.Finite_Map" "HOL-Library.List_Lexorder" "HOL-Library.Char_ord"
begin

section \<open>The type number (IEEE 754 binary64)\<close>

text \<open>
  A value of type \<^verbatim>\<open>number\<close> is a finite double, given by its value, a real number, or an
  infinity or NaN. The two zeros are one value here: they differ only as divisors, and the
  one divisor of the engine that can be zero, \<^verbatim>\<open>totalTimeLogged / 60\<close> under the guard
  \<^verbatim>\<open>totalTimeLogged > 0\<close>, is the positive zero.
\<close>

datatype double = Fin real | PInf | NInf | NaN

section \<open>Data model (database.ts)\<close>

text \<open>
  The interfaces of \<^verbatim>\<open>database.ts\<close> become records. Record fields are global constants
  in HOL, so every field carries a prefix naming its interface. A \<^verbatim>\<open>string\<close> is a HOL
  string.

  A field declared \<^verbatim>\<open>number\<close> holds a number as long as the record comes from the forms or
  from IndexedDB. In a record read back from JSON text it holds \<^verbatim>\<open>null\<close> where the number was
  NaN or an infinity, which \<^verbatim>\<open>JSON.stringify\<close> writes as \<^verbatim>\<open>null\<close>. Where the engine adds such a
  field to a number or compares it with one, \<^verbatim>\<open>null\<close> is converted to the number 0; \<open>toNumber\<close>
  is this conversion.

  A field declared \<^verbatim>\<open>Date\<close> holds a \<^verbatim>\<open>Date\<close> object, given by its time value in milliseconds
  or invalid, as long as the record comes from the forms or from IndexedDB. In a record
  read back from JSON text the same field holds what \<^verbatim>\<open>toJSON\<close> returns for the \<^verbatim>\<open>Date\<close>: its ISO
  string, or \<^verbatim>\<open>null\<close> when it is invalid.
\<close>

datatype NumberField = Number double | JsonNull

fun toNumber :: "NumberField \<Rightarrow> double" where
  "toNumber (Number x) = x"
| "toNumber JsonNull = Fin 0"

datatype EnergyLevel = High | Medium | Low

datatype TimeField = DateObject int | InvalidDate | IsoString string | NullTime

record ActivityCategory =
  cat_id :: string
  cat_name :: string
  cat_points :: NumberField
  cat_color :: string
  cat_description :: string

record VitalityBonus =
  bonus_id :: string
  bonus_name :: string
  bonus_points :: NumberField
  bonus_description :: string

record ActivityLog =
  act_id :: string
  act_name :: string
  act_categoryId :: string
  act_startTime :: TimeField
  act_endTime :: TimeField
  act_date :: string
  act_energyLevel :: EnergyLevel
  act_duration :: NumberField
  act_points :: NumberField

record VitalityEntry =
  ve_id :: string
  ve_date :: string
  ve_bonusId :: string
  ve_completed :: bool

section \<open>Arithmetic of the type number\<close>

text \<open>
  The binade of a number \<open>x\<close>: the exponent \<open>e\<close> with \<open>2 ^ e \<le> \<bar>x\<bar> < 2 ^ (e + 1)\<close>, kept between
  \<open>- 1022\<close>, the exponent of the subnormal numbers, and \<open>1024\<close>, where every number overflows.
\<close>

function binadeUp :: "real \<Rightarrow> int \<Rightarrow> int" where
  "binadeUp x e = (if 2 \<le> x \<and> e < 1024 then binadeUp (x / 2) (e + 1) else e)"
  by pat_completeness auto
termination
  by (relation "measure (\<lambda>(x, e). nat (1024 - e))") auto

function binadeDown :: "real \<Rightarrow> int \<Rightarrow> int" where
  "binadeDown x e = (if x < 1 \<and> - 1022 < e then binadeDown (x * 2) (e - 1) else e)"
  by pat_completeness auto
termination
  by (relation "measure (\<lambda>(x, e). nat (e + 1022))") auto

declare binadeUp.simps [simp del] binadeDown.simps [simp del]

definition binade :: "real \<Rightarrow> int" where
  "binade x = (if 1 \<le> \<bar>x\<bar> then binadeUp \<bar>x\<bar> 0 else binadeDown \<bar>x\<bar> 0)"

text \<open>Rounding to the nearest integer, a tie to the even one.\<close>

definition roundHalfEven :: "real \<Rightarrow> int" where
  "roundHalfEven r =
     (let f = \<lfloor>r\<rfloor>; d = r - of_int f
      in if d < 1 / 2 then f else if 1 / 2 < d then f + 1 else if even f then f else f + 1)"

text \<open>
  Rounding a real number to the nearest double, a tie to the even significand: the
  doubles of the binade \<open>e\<close> are the multiples of \<open>2 ^ (e - 52)\<close>. A result of magnitude
  \<open>2 ^ 1024\<close> or more is an infinity.
\<close>

definition roundReal :: "real \<Rightarrow> real" where
  "roundReal x = (let q = 2 powi (binade x - 52) in of_int (roundHalfEven (x / q)) * q)"

definition round64 :: "real \<Rightarrow> double" where
  "round64 x =
     (if x = 0 then Fin 0
      else let y = roundReal x
           in if 2 powi 1024 \<le> \<bar>y\<bar> then (if 0 < x then PInf else NInf) else Fin y)"

text \<open>The operators \<^verbatim>\<open>+\<close>, \<^verbatim>\<open>*\<close>, \<^verbatim>\<open>/\<close>, \<^verbatim>\<open>>\<close> and \<^verbatim>\<open><=\<close> on numbers.\<close>

fun dadd :: "double \<Rightarrow> double \<Rightarrow> double" where
  "dadd (Fin x) (Fin y) = round64 (x + y)"
| "dadd NaN _ = NaN"
| "dadd _ NaN = NaN"
| "dadd PInf NInf = NaN"
| "dadd NInf PInf = NaN"
| "dadd PInf _ = PInf"
| "dadd _ PInf = PInf"
| "dadd NInf _ = NInf"
| "dadd _ NInf = NInf"

fun dmul :: "double \<Rightarrow> double \<Rightarrow> double" where
  "dmul (Fin x) (Fin y) = round64 (x * y)"
| "dmul NaN _ = NaN"
| "dmul _ NaN = NaN"
| "dmul PInf (Fin y) = (if y = 0 then NaN else if 0 < y then PInf else NInf)"
| "dmul NInf (Fin y) = (if y = 0 then NaN else if 0 < y then NInf else PInf)"
| "dmul (Fin x) PInf = (if x = 0 then NaN else if 0 < x then PInf else NInf)"
| "dmul (Fin x) NInf = (if x = 0 then NaN else if 0 < x then NInf else PInf)"
| "dmul PInf PInf = PInf"
| "dmul NInf NInf = PInf"
| "dmul PInf NInf = NInf"
| "dmul NInf PInf = NInf"

fun ddiv :: "double \<Rightarrow> double \<Rightarrow> double" where
  "ddiv (Fin x) (Fin y) =
     (if y = 0 then (if x = 0 then NaN else if 0 < x then PInf else NInf) else round64 (x / y))"
| "ddiv NaN _ = NaN"
| "ddiv _ NaN = NaN"
| "ddiv (Fin x) PInf = Fin 0"
| "ddiv (Fin x) NInf = Fin 0"
| "ddiv PInf (Fin y) = (if 0 \<le> y then PInf else NInf)"
| "ddiv NInf (Fin y) = (if 0 \<le> y then NInf else PInf)"
| "ddiv PInf PInf = NaN"
| "ddiv PInf NInf = NaN"
| "ddiv NInf PInf = NaN"
| "ddiv NInf NInf = NaN"

fun dgt :: "double \<Rightarrow> double \<Rightarrow> bool" where
  "dgt (Fin x) (Fin y) = (y < x)"
| "dgt NaN _ = False"
| "dgt _ NaN = False"
| "dgt PInf PInf = False"
| "dgt PInf _ = True"
| "dgt _ PInf = False"
| "dgt NInf _ = False"
| "dgt _ NInf = True"

fun dle :: "double \<Rightarrow> double \<Rightarrow> bool" where
  "dle (Fin x) (Fin y) = (x \<le> y)"
| "dle NaN _ = False"
| "dle _ NaN = False"
| "dle NInf _ = True"
| "dle _ PInf = True"
| "dle PInf _ = False"
| "dle _ NInf = False"

text \<open>The sum of a list of numbers, added from left to right as a loop does.\<close>

definition dsum :: "double list \<Rightarrow> double" where
  "dsum xs = fold (\<lambda>x s. dadd s x) xs (Fin 0)"

section \<open>The metrics engine (calculations.ts)\<close>

record EnergyFocusCorrelation =
  high :: double
  medium :: double
  low :: double

record DailyMetrics =
  totalScore :: double
  focusRatio :: double
  distractionRatio :: double
  productivityThroughput :: double
  totalTimeLogged :: double
  energyFocusCorrelation :: EnergyFocusCorrelation

text \<open>
  \<^verbatim>\<open>new Map(entries)\<close> sets the entries in order, so a later entry with the same key
  replaces an earlier one; \<^verbatim>\<open>Map.get\<close> of an absent key is \<^verbatim>\<open>undefined\<close>, here \<open>None\<close>.
\<close>

definition new_Map :: "('k \<times> 'v) list \<Rightarrow> ('k \<rightharpoonup> 'v)" where
  "new_Map entries = fold (\<lambda>(k, v) m. m(k \<mapsto> v)) entries Map.empty"

definition categoryMap :: "ActivityCategory list \<Rightarrow> (string \<rightharpoonup> ActivityCategory)" where
  "categoryMap categories = new_Map (map (\<lambda>cat. (cat_id cat, cat)) categories)"

definition vitalityMap :: "VitalityBonus list \<Rightarrow> (string \<rightharpoonup> VitalityBonus)" where
  "vitalityMap vitalityBonuses = new_Map (map (\<lambda>bonus. (bonus_id bonus, bonus)) vitalityBonuses)"

text \<open>The local variables that the \<^verbatim>\<open>activities.forEach\<close> callback updates.\<close>

record ActivityAcc =
  totalActivityScore :: double
  acc_totalTimeLogged :: double
  deepWorkTime :: double
  distractionTime :: double
  positivePoints :: double
  acc_energyFocusCorrelation :: EnergyFocusCorrelation

definition initialAcc :: ActivityAcc where
  "initialAcc = \<lparr>totalActivityScore = Fin 0, acc_totalTimeLogged = Fin 0, deepWorkTime = Fin 0,
     distractionTime = Fin 0, positivePoints = Fin 0,
     acc_energyFocusCorrelation = \<lparr>high = Fin 0, medium = Fin 0, low = Fin 0\<rparr>\<rparr>"

text \<open>One run of the callback of \<^verbatim>\<open>activities.forEach\<close> (calculations.ts, lines 35 to 56).\<close>

definition activityStep :: "(string \<rightharpoonup> ActivityCategory) \<Rightarrow> ActivityLog \<Rightarrow> ActivityAcc \<Rightarrow> ActivityAcc" where
  "activityStep cm activity acc =
     (case cm (act_categoryId activity) of
        None \<Rightarrow> acc
      | Some category \<Rightarrow>
          (let points = toNumber (act_points activity);
               duration = toNumber (act_duration activity);
               acc1 = acc\<lparr>totalActivityScore := dadd (totalActivityScore acc) points,
                          acc_totalTimeLogged := dadd (acc_totalTimeLogged acc) duration\<rparr>;
               acc2 = (if dgt points (Fin 0)
                       then acc1\<lparr>positivePoints := dadd (positivePoints acc1) points\<rparr>
                       else acc1);
               efc = acc_energyFocusCorrelation acc2
           in if cat_name category = ''Deep Work''
              then acc2\<lparr>deepWorkTime := dadd (deepWorkTime acc2) duration,
                        acc_energyFocusCorrelation :=
                          (if act_energyLevel activity = High
                           then efc\<lparr>high := dadd (high efc) duration\<rparr>
                           else if act_energyLevel activity = Medium
                           then efc\<lparr>medium := dadd (medium efc) duration\<rparr>
                           else efc\<lparr>low := dadd (low efc) duration\<rparr>)\<rparr>
              else if cat_name category = ''Distraction''
              then acc2\<lparr>distractionTime := dadd (distractionTime acc2) duration\<rparr>
              else acc2))"

definition activityLoop :: "ActivityLog list \<Rightarrow> ActivityCategory list \<Rightarrow> ActivityAcc" where
  "activityLoop activities categories = fold (activityStep (categoryMap categories)) activities initialAcc"

text \<open>One run of the callback of \<^verbatim>\<open>vitalityEntries.forEach\<close> (lines 62 to 69).\<close>

definition vitalityStep :: "(string \<rightharpoonup> VitalityBonus) \<Rightarrow> VitalityEntry \<Rightarrow> double \<Rightarrow> double" where
  "vitalityStep vm entry totalVitalityScore =
     (if ve_completed entry
      then (case vm (ve_bonusId entry) of
              Some bonus \<Rightarrow> dadd totalVitalityScore (toNumber (bonus_points bonus))
            | None \<Rightarrow> totalVitalityScore)
      else totalVitalityScore)"

definition vitalityLoop :: "VitalityEntry list \<Rightarrow> VitalityBonus list \<Rightarrow> double" where
  "vitalityLoop vitalityEntries vitalityBonuses =
     fold (vitalityStep (vitalityMap vitalityBonuses)) vitalityEntries (Fin 0)"

definition calculateDailyMetrics ::
  "ActivityLog list \<Rightarrow> ActivityCategory list \<Rightarrow> VitalityEntry list \<Rightarrow> VitalityBonus list \<Rightarrow> DailyMetrics" where
  "calculateDailyMetrics activities categories vitalityEntries vitalityBonuses =
     (let acc = activityLoop activities categories;
          totalVitalityScore = vitalityLoop vitalityEntries vitalityBonuses;
          t = acc_totalTimeLogged acc
      in \<lparr>totalScore = dadd (totalActivityScore acc) totalVitalityScore,
          focusRatio = (if dgt t (Fin 0) then dmul (ddiv (deepWorkTime acc) t) (Fin 100) else Fin 0),
          distractionRatio =
            (if dgt t (Fin 0) then dmul (ddiv (distractionTime acc) t) (Fin 100) else Fin 0),
          productivityThroughput =
            (if dgt t (Fin 0) then ddiv (positivePoints acc) (ddiv t (Fin 60)) else Fin 0),
          totalTimeLogged = t,
          energyFocusCorrelation = acc_energyFocusCorrelation acc\<rparr>)"

text \<open>
  The stored points that the activity loop adds up, and the bonus points that the vitality
  loop adds up, in the order of the lists.
\<close>

definition countedActivityPoints :: "ActivityLog list \<Rightarrow> ActivityCategory list \<Rightarrow> double list" where
  "countedActivityPoints activities categories =
     map (\<lambda>a. toNumber (act_points a)) (filter (\<lambda>a. categoryMap categories (act_categoryId a) \<noteq> None) activities)"

definition countedBonusPoints :: "VitalityEntry list \<Rightarrow> VitalityBonus list \<Rightarrow> double list" where
  "countedBonusPoints vitalityEntries vitalityBonuses =
     List.map_filter
       (\<lambda>e. if ve_completed e
            then map_option (\<lambda>b. toNumber (bonus_points b)) (vitalityMap vitalityBonuses (ve_bonusId e))
            else None)
       vitalityEntries"

text \<open>
  A time accumulator that has only seen durations that are not negative: a double that is
  not negative, or the positive infinity after an overflow. The three time accumulators
  keep the relation \<open>timeInv\<close>: focus and distraction time are parts of the logged time.
\<close>

definition nonnegD :: "double \<Rightarrow> bool" where
  "nonnegD v = (case v of Fin x \<Rightarrow> 0 \<le> x \<and> roundReal x = x | PInf \<Rightarrow> True | _ \<Rightarrow> False)"

definition timeInv :: "ActivityAcc \<Rightarrow> bool" where
  "timeInv acc \<longleftrightarrow>
     nonnegD (deepWorkTime acc) \<and> nonnegD (distractionTime acc) \<and> nonnegD (acc_totalTimeLogged acc) \<and>
     dle (deepWorkTime acc) (acc_totalTimeLogged acc) \<and>
     dle (distractionTime acc) (acc_totalTimeLogged acc)"

text \<open>
  The time accumulators when every duration is a whole number and their sum stays below
  \<open>2 ^ 53\<close>: every addition is exact.
\<close>

definition wholeInv :: "ActivityAcc \<Rightarrow> nat \<Rightarrow> nat \<Rightarrow> nat \<Rightarrow> bool" where
  "wholeInv acc d x t \<longleftrightarrow>
     deepWorkTime acc = Fin (real d) \<and> distractionTime acc = Fin (real x) \<and>
     acc_totalTimeLogged acc = Fin (real t) \<and> d + x \<le> t"

section \<open>Score colours of the monthly overview (MonthlyOverview.tsx)\<close>

definition getScoreColor :: "real \<Rightarrow> string" where
  "getScoreColor score =
     (if score \<ge> 20 then ''bg-emerald-500''
      else if score \<ge> 15 then ''bg-green-500''
      else if score \<ge> 10 then ''bg-yellow-500''
      else if score \<ge> 5 then ''bg-orange-500''
      else if score > 0 then ''bg-red-500''
      else ''bg-gray-300'')"

text \<open>
  The legend of the calendar (lines 145 to 171) lists the six colours from the lowest tier
  (score 0, no activity) to the highest (20 and more); the position of a colour in the
  legend is its tier.
\<close>

definition legend :: "string list" where
  "legend = [''bg-gray-300'', ''bg-red-500'', ''bg-orange-500'', ''bg-yellow-500'',
             ''bg-green-500'', ''bg-emerald-500'']"

fun indexOf :: "'a \<Rightarrow> 'a list \<Rightarrow> nat option" where
  "indexOf x [] = None"
| "indexOf x (y # ys) =
     (if x = y then Some 0 else (case indexOf x ys of None \<Rightarrow> None | Some i \<Rightarrow> Some (Suc i)))"

definition scoreTier :: "real \<Rightarrow> nat option" where
  "scoreTier score = indexOf (getScoreColor score) legend"

section \<open>The entity store (database.ts)\<close>

text \<open>
  Two versions of \<^verbatim>\<open>database.ts\<close> are in the repository. Version 1 writes new records with
  \<^verbatim>\<open>store.add\<close> and has export and clear operations; version 2 adds a \<^verbatim>\<open>tasks\<close> store and
  writes every record through \<^verbatim>\<open>writeToStore\<close>, which calls \<^verbatim>\<open>store.put\<close>. The operations of
  version 2 carry the suffix \<open>_v2\<close>.
\<close>

datatype Priority = PriorityHigh | PriorityMedium | PriorityLow

record DailyTask =
  task_id :: string
  task_date :: string
  task_name :: string
  task_priority :: Priority
  task_completed :: bool

record DailyGoal =
  goal_id :: string
  goal_date :: string
  goal_categoryId :: string
  goal_targetMinutes :: NumberField

record StoredMetrics =
  sm_date :: string
  sm_totalScore :: NumberField
  sm_focusRatio :: NumberField
  sm_distractionRatio :: NumberField
  sm_productivityThroughput :: NumberField
  sm_totalTimeLogged :: NumberField

definition defaultCategories :: "ActivityCategory list" where
  "defaultCategories =
    [\<lparr>cat_id = ''deep-work'', cat_name = ''Deep Work'', cat_points = Number (Fin 3), cat_color = ''#3B82F6'',
      cat_description = ''Focused, cognitively demanding work''\<rparr>,
     \<lparr>cat_id = ''shallow-work'', cat_name = ''Shallow Work'', cat_points = Number (Fin 1), cat_color = ''#8B5CF6'',
      cat_description = ''Administrative and logistical tasks''\<rparr>,
     \<lparr>cat_id = ''learning'', cat_name = ''Learning'', cat_points = Number (Fin 2), cat_color = ''#06B6D4'',
      cat_description = ''Skill development and education''\<rparr>,
     \<lparr>cat_id = ''meetings'', cat_name = ''Meetings'', cat_points = Number (Fin 1), cat_color = ''#F59E0B'',
      cat_description = ''Collaborative discussions and calls''\<rparr>,
     \<lparr>cat_id = ''personal-care'', cat_name = ''Personal Care'', cat_points = Number (Fin 1), cat_color = ''#10B981'',
      cat_description = ''Health, wellness, and self-care activities''\<rparr>,
     \<lparr>cat_id = ''distraction'', cat_name = ''Distraction'', cat_points = Number (Fin (- 1)), cat_color = ''#EF4444'',
      cat_description = ''Social media, mindless browsing, etc.''\<rparr>]"

definition defaultVitalityBonuses :: "VitalityBonus list" where
  "defaultVitalityBonuses =
    [\<lparr>bonus_id = ''sleep'', bonus_name = ''Quality Sleep'', bonus_points = Number (Fin 5),
      bonus_description = ''7+ hours of restful sleep''\<rparr>,
     \<lparr>bonus_id = ''exercise'', bonus_name = ''Exercise'', bonus_points = Number (Fin 5),
      bonus_description = ''Physical activity or workout''\<rparr>,
     \<lparr>bonus_id = ''meditation'', bonus_name = ''Meditation'', bonus_points = Number (Fin 3),
      bonus_description = ''Mindfulness or meditation practice''\<rparr>,
     \<lparr>bonus_id = ''planning'', bonus_name = ''Daily Planning'', bonus_points = Number (Fin 2),
      bonus_description = ''Setting intentions and planning the day''\<rparr>]"

subsection \<open>IndexedDB object stores\<close>

text \<open>
  An object store with key path \<^verbatim>\<open>id\<close> is a finite map from keys to records. \<^verbatim>\<open>add\<close> fails
  with a ConstraintError when the key is taken, \<^verbatim>\<open>put\<close> replaces, \<^verbatim>\<open>getAll\<close> lists the
  records in key order, \<^verbatim>\<open>count\<close> is the number of records. The key of a record is read
  from the record by the key path, here the function \<open>keyPath\<close>.
\<close>

type_synonym 'v objectStore = "(string, 'v) fmap"

datatype DbError = NotInitialized | ConstraintError | DataError | NotFoundError

definition IDB_add :: "('v \<Rightarrow> string) \<Rightarrow> 'v \<Rightarrow> 'v objectStore \<Rightarrow> DbError + 'v objectStore" where
  "IDB_add keyPath v store =
     (if keyPath v |\<in>| fmdom store then Inl ConstraintError else Inr (fmupd (keyPath v) v store))"

definition IDB_put :: "('v \<Rightarrow> string) \<Rightarrow> 'v \<Rightarrow> 'v objectStore \<Rightarrow> 'v objectStore" where
  "IDB_put keyPath v store = fmupd (keyPath v) v store"

definition IDB_delete :: "string \<Rightarrow> 'v objectStore \<Rightarrow> 'v objectStore" where
  "IDB_delete key store = fmdrop key store"

definition IDB_getAll :: "'v objectStore \<Rightarrow> 'v list" where
  "IDB_getAll store = map snd (sorted_list_of_fmap store)"

definition IDB_count :: "'v objectStore \<Rightarrow> nat" where
  "IDB_count store = fcard (fmdom store)"


text \<open>
  The database of version 1 (\<^verbatim>\<open>onupgradeneeded\<close>, lines 141 to 157); version 2 extends it by
  the \<^verbatim>\<open>tasks\<close> store.
\<close>

record IDBDatabase =
  db_categories :: "ActivityCategory objectStore"
  db_vitality :: "VitalityBonus objectStore"
  db_activities :: "ActivityLog objectStore"
  db_vitalityEntries :: "VitalityEntry objectStore"
  db_goals :: "DailyGoal objectStore"
  db_metrics :: "StoredMetrics objectStore"

record IDBDatabase_v2 = IDBDatabase +
  db_tasks :: "DailyTask objectStore"

text \<open>The database that \<^verbatim>\<open>init\<close> creates when none exists: every store is empty.\<close>

definition freshDatabase :: IDBDatabase where
  "freshDatabase = \<lparr>db_categories = fmempty, db_vitality = fmempty, db_activities = fmempty,
     db_vitalityEntries = fmempty, db_goals = fmempty, db_metrics = fmempty\<rparr>"

text \<open>
  Every record of a store with key path \<^verbatim>\<open>id\<close> is stored under its own id. IndexedDB
  keeps this by construction; in the model it is a property of a database value.
\<close>

definition keyed :: "('v \<Rightarrow> string) \<Rightarrow> 'v objectStore \<Rightarrow> bool" where
  "keyed keyPath store \<longleftrightarrow> fmpred (\<lambda>k v. keyPath v = k) store"

definition wellKeyed :: "'a IDBDatabase_scheme \<Rightarrow> bool" where
  "wellKeyed d \<longleftrightarrow> keyed cat_id (db_categories d) \<and> keyed bonus_id (db_vitality d) \<and>
     keyed act_id (db_activities d) \<and> keyed ve_id (db_vitalityEntries d)"

text \<open>
  The contents of the two reference stores after seeding: every default record under its
  own id.
\<close>

definition seededCategories :: "ActivityCategory objectStore" where
  "seededCategories = fmap_of_list (map (\<lambda>c. (cat_id c, c)) defaultCategories)"

definition seededVitality :: "VitalityBonus objectStore" where
  "seededVitality = fmap_of_list (map (\<lambda>b. (bonus_id b, b)) defaultVitalityBonuses)"

subsection \<open>The DatabaseManager\<close>

text \<open>
  The state of the manager is its field \<^verbatim>\<open>db\<close>: \<open>None\<close> while it is \<^verbatim>\<open>null\<close>, and the
  contents of the opened database afterwards. A method takes the state and returns its
  result with the state it leaves; a rejected promise is a result \<open>Inl\<close>. A request that
  fails aborts its transaction, so the state is the one before the call.
\<close>

type_synonym ('d, 'r) dbop = "'d option \<Rightarrow> (DbError + 'r) \<times> 'd option"

definition await :: "('d, 'r) dbop \<Rightarrow> ('r \<Rightarrow> ('d, 'q) dbop) \<Rightarrow> ('d, 'q) dbop" where
  "await m f s = (case m s of (Inl e, s') \<Rightarrow> (Inl e, s') | (Inr r, s') \<Rightarrow> f r s')"

fun forAwait :: "('x \<Rightarrow> ('d, unit) dbop) \<Rightarrow> 'x list \<Rightarrow> ('d, unit) dbop" where
  "forAwait f [] s = (Inr (), s)"
| "forAwait f (x # xs) s =
     (case f x s of (Inl e, s') \<Rightarrow> (Inl e, s') | (Inr _, s') \<Rightarrow> forAwait f xs s')"

definition getCount :: "('d \<Rightarrow> 'v objectStore) \<Rightarrow> ('d, nat) dbop" where
  "getCount storeName s =
     (case s of None \<Rightarrow> (Inl NotInitialized, s)
      | Some d \<Rightarrow> (Inr (IDB_count (storeName d)), s))"







text \<open>
  \<^verbatim>\<open>IDBKeyRange.bound(lower, upper)\<close> throws a DataError when \<^verbatim>\<open>lower > upper\<close>; the
  index returns the records of the range ordered by date, then by primary key.
\<close>

definition getActivitiesInRange :: "string \<Rightarrow> string \<Rightarrow> ('a IDBDatabase_scheme, ActivityLog list) dbop" where
  "getActivitiesInRange startDate endDate s =
     (case s of None \<Rightarrow> (Inl NotInitialized, s)
      | Some d \<Rightarrow>
          if endDate < startDate then (Inl DataError, s)
          else (Inr (sort_key act_date
                  (filter (\<lambda>a. startDate \<le> act_date a \<and> act_date a \<le> endDate)
                     (IDB_getAll (db_activities d)))), s))"


text \<open>Version 1: new records are written with \<^verbatim>\<open>store.add\<close>, updates with \<^verbatim>\<open>store.put\<close>.\<close>

definition addCategory :: "ActivityCategory \<Rightarrow> ('a IDBDatabase_scheme, unit) dbop" where
  "addCategory category s =
     (case s of None \<Rightarrow> (Inl NotInitialized, s)
      | Some d \<Rightarrow>
          (case IDB_add cat_id category (db_categories d) of
             Inl e \<Rightarrow> (Inl e, s)
           | Inr store \<Rightarrow> (Inr (), Some (d\<lparr>db_categories := store\<rparr>))))"

definition addVitalityBonus :: "VitalityBonus \<Rightarrow> ('a IDBDatabase_scheme, unit) dbop" where
  "addVitalityBonus bonus s =
     (case s of None \<Rightarrow> (Inl NotInitialized, s)
      | Some d \<Rightarrow>
          (case IDB_add bonus_id bonus (db_vitality d) of
             Inl e \<Rightarrow> (Inl e, s)
           | Inr store \<Rightarrow> (Inr (), Some (d\<lparr>db_vitality := store\<rparr>))))"

definition addActivity :: "ActivityLog \<Rightarrow> ('a IDBDatabase_scheme, unit) dbop" where
  "addActivity activity s =
     (case s of None \<Rightarrow> (Inl NotInitialized, s)
      | Some d \<Rightarrow>
          (case IDB_add act_id activity (db_activities d) of
             Inl e \<Rightarrow> (Inl e, s)
           | Inr store \<Rightarrow> (Inr (), Some (d\<lparr>db_activities := store\<rparr>))))"

definition updateActivity :: "ActivityLog \<Rightarrow> ('a IDBDatabase_scheme, unit) dbop" where
  "updateActivity activity s =
     (case s of None \<Rightarrow> (Inl NotInitialized, s)
      | Some d \<Rightarrow> (Inr (), Some (d\<lparr>db_activities := IDB_put act_id activity (db_activities d)\<rparr>)))"

definition deleteActivity :: "string \<Rightarrow> ('a IDBDatabase_scheme, unit) dbop" where
  "deleteActivity activityId s =
     (case s of None \<Rightarrow> (Inl NotInitialized, s)
      | Some d \<Rightarrow> (Inr (), Some (d\<lparr>db_activities := IDB_delete activityId (db_activities d)\<rparr>)))"

definition addVitalityEntry :: "VitalityEntry \<Rightarrow> ('a IDBDatabase_scheme, unit) dbop" where
  "addVitalityEntry entry s =
     (case s of None \<Rightarrow> (Inl NotInitialized, s)
      | Some d \<Rightarrow>
          (case IDB_add ve_id entry (db_vitalityEntries d) of
             Inl e \<Rightarrow> (Inl e, s)
           | Inr store \<Rightarrow> (Inr (), Some (d\<lparr>db_vitalityEntries := store\<rparr>))))"

definition updateVitalityEntry :: "VitalityEntry \<Rightarrow> ('a IDBDatabase_scheme, unit) dbop" where
  "updateVitalityEntry entry s =
     (case s of None \<Rightarrow> (Inl NotInitialized, s)
      | Some d \<Rightarrow>
          (Inr (), Some (d\<lparr>db_vitalityEntries := IDB_put ve_id entry (db_vitalityEntries d)\<rparr>)))"

definition initializeDefaultData :: "('a IDBDatabase_scheme, unit) dbop" where
  "initializeDefaultData s =
     (case s of None \<Rightarrow> (Inl NotInitialized, s)
      | Some _ \<Rightarrow>
          await (getCount db_categories) (\<lambda>categoriesCount.
          await (if categoriesCount = 0 then forAwait addCategory defaultCategories
                 else (\<lambda>s'. (Inr (), s'))) (\<lambda>_.
          await (getCount db_vitality) (\<lambda>vitalityCount.
            if vitalityCount = 0 then forAwait addVitalityBonus defaultVitalityBonuses
            else (\<lambda>s'. (Inr (), s'))))) s)"

text \<open>
  \<^verbatim>\<open>exportData\<close> collects four stores and the time of the export and returns them as JSON
  text. The model holds the content of that text, the value that \<^verbatim>\<open>JSON.parse\<close> reads back
  from it. Strings and booleans are themselves. A finite number is itself (the text of a
  number is the shortest decimal that reads back as the same double), NaN and the
  infinities are \<^verbatim>\<open>null\<close>. A \<^verbatim>\<open>Date\<close> is what its \<^verbatim>\<open>toJSON\<close> returns: the ISO string, or \<^verbatim>\<open>null\<close> for an
  invalid \<^verbatim>\<open>Date\<close>. The function \<^verbatim>\<open>Date.prototype.toISOString\<close> of the runtime is the parameter
  \<open>toISOString\<close>, the clock read by \<^verbatim>\<open>new Date()\<close> is the parameter \<open>now\<close>.
\<close>

fun jsonNumber :: "NumberField \<Rightarrow> NumberField" where
  "jsonNumber (Number (Fin x)) = Number (Fin x)"
| "jsonNumber (Number PInf) = JsonNull"
| "jsonNumber (Number NInf) = JsonNull"
| "jsonNumber (Number NaN) = JsonNull"
| "jsonNumber JsonNull = JsonNull"

fun jsonTime :: "(int \<Rightarrow> string) \<Rightarrow> TimeField \<Rightarrow> TimeField" where
  "jsonTime toISOString (DateObject t) = IsoString (toISOString t)"
| "jsonTime toISOString InvalidDate = NullTime"
| "jsonTime toISOString (IsoString s) = IsoString s"
| "jsonTime toISOString NullTime = NullTime"

definition jsonCategory :: "ActivityCategory \<Rightarrow> ActivityCategory" where
  "jsonCategory category = category\<lparr>cat_points := jsonNumber (cat_points category)\<rparr>"

definition jsonBonus :: "VitalityBonus \<Rightarrow> VitalityBonus" where
  "jsonBonus bonus = bonus\<lparr>bonus_points := jsonNumber (bonus_points bonus)\<rparr>"

definition jsonActivity :: "(int \<Rightarrow> string) \<Rightarrow> ActivityLog \<Rightarrow> ActivityLog" where
  "jsonActivity toISOString activity =
     activity\<lparr>act_startTime := jsonTime toISOString (act_startTime activity),
              act_endTime := jsonTime toISOString (act_endTime activity),
              act_duration := jsonNumber (act_duration activity),
              act_points := jsonNumber (act_points activity)\<rparr>"








text \<open>Version 2: every write goes through \<^verbatim>\<open>writeToStore\<close>, that is \<^verbatim>\<open>store.put\<close>.\<close>

definition addCategory_v2 :: "ActivityCategory \<Rightarrow> ('a IDBDatabase_scheme, unit) dbop" where
  "addCategory_v2 category s =
     (case s of None \<Rightarrow> (Inl NotInitialized, s)
      | Some d \<Rightarrow> (Inr (), Some (d\<lparr>db_categories := IDB_put cat_id category (db_categories d)\<rparr>)))"

definition addVitalityBonus_v2 :: "VitalityBonus \<Rightarrow> ('a IDBDatabase_scheme, unit) dbop" where
  "addVitalityBonus_v2 bonus s =
     (case s of None \<Rightarrow> (Inl NotInitialized, s)
      | Some d \<Rightarrow> (Inr (), Some (d\<lparr>db_vitality := IDB_put bonus_id bonus (db_vitality d)\<rparr>)))"

definition addActivity_v2 :: "ActivityLog \<Rightarrow> ('a IDBDatabase_scheme, unit) dbop" where
  "addActivity_v2 activity s =
     (case s of None \<Rightarrow> (Inl NotInitialized, s)
      | Some d \<Rightarrow> (Inr (), Some (d\<lparr>db_activities := IDB_put act_id activity (db_activities d)\<rparr>)))"

definition addVitalityEntry_v2 :: "VitalityEntry \<Rightarrow> ('a IDBDatabase_scheme, unit) dbop" where
  "addVitalityEntry_v2 entry s =
     (case s of None \<Rightarrow> (Inl NotInitialized, s)
      | Some d \<Rightarrow>
          (Inr (), Some (d\<lparr>db_vitalityEntries := IDB_put ve_id entry (db_vitalityEntries d)\<rparr>)))"

definition initializeDefaultData_v2 :: "('a IDBDatabase_scheme, unit) dbop" where
  "initializeDefaultData_v2 s =
     (case s of None \<Rightarrow> (Inl NotInitialized, s)
      | Some _ \<Rightarrow>
          await (getCount db_categories) (\<lambda>categoriesCount.
          await (if categoriesCount = 0 then forAwait addCategory_v2 defaultCategories
                 else (\<lambda>s'. (Inr (), s'))) (\<lambda>_.
          await (getCount db_vitality) (\<lambda>vitalityCount.
            if vitalityCount = 0 then forAwait addVitalityBonus_v2 defaultVitalityBonuses
            else (\<lambda>s'. (Inr (), s'))))) s)"



section \<open>Example records\<close>

text \<open>
  Concrete records at which the theorems below are instantiated. The store
  \<open>exampleStore\<close> is the fresh database after \<^verbatim>\<open>addActivity\<close> of \<open>exampleDeepWork\<close>.
\<close>

definition exampleDeepWork :: ActivityLog where
  "exampleDeepWork = \<lparr>act_id = ''a1'', act_name = ''Write report'', act_categoryId = ''deep-work'',
     act_startTime = DateObject 0, act_endTime = DateObject 7200000, act_date = ''1970-01-01'',
     act_energyLevel = High, act_duration = Number (Fin 120), act_points = Number (Fin 6)\<rparr>"

definition exampleDistraction :: ActivityLog where
  "exampleDistraction = \<lparr>act_id = ''a2'', act_name = ''Browsing'', act_categoryId = ''distraction'',
     act_startTime = DateObject 7200000, act_endTime = DateObject 10800000,
     act_date = ''1970-01-01'', act_energyLevel = Low,
     act_duration = Number (Fin 60), act_points = Number (Fin (- 1))\<rparr>"

definition exampleEntry :: VitalityEntry where
  "exampleEntry = \<lparr>ve_id = ''e1'', ve_date = ''1970-01-01'', ve_bonusId = ''sleep'',
     ve_completed = True\<rparr>"

definition exampleStore :: IDBDatabase where
  "exampleStore = freshDatabase\<lparr>db_activities := fmupd ''a1'' exampleDeepWork fmempty\<rparr>"


text \<open>
  Records for the rounding of the engine: an activity of one minute at one point per
  hour, whose stored points are the double nearest to \<open>1 / 60\<close>; activities of 1 and of 23
  minutes with points at the hourly rate of their categories; an activity whose duration is
  the largest finite double, \<^verbatim>\<open>Number.MAX_VALUE\<close>; and an activity whose duration is infinite.
\<close>

definition exampleOneMinute :: ActivityLog where
  "exampleOneMinute = \<lparr>act_id = ''a3'', act_name = ''Check mail'', act_categoryId = ''shallow-work'',
     act_startTime = DateObject 0, act_endTime = DateObject 60000, act_date = ''1970-01-01'',
     act_energyLevel = Medium, act_duration = Number (Fin 1),
     act_points = Number (Fin (4803839602528529 / 288230376151711744))\<rparr>"

definition exampleMeditation :: VitalityEntry where
  "exampleMeditation = \<lparr>ve_id = ''e2'', ve_date = ''1970-01-01'', ve_bonusId = ''meditation'',
     ve_completed = True\<rparr>"

definition exampleFocusMinute :: ActivityLog where
  "exampleFocusMinute = \<lparr>act_id = ''a4'', act_name = ''Sketch'', act_categoryId = ''deep-work'',
     act_startTime = DateObject 0, act_endTime = DateObject 60000, act_date = ''1970-01-01'',
     act_energyLevel = High, act_duration = Number (Fin 1),
     act_points = Number (Fin (3602879701896397 / 72057594037927936))\<rparr>"

definition exampleDistraction23 :: ActivityLog where
  "exampleDistraction23 = \<lparr>act_id = ''a5'', act_name = ''Browsing'', act_categoryId = ''distraction'',
     act_startTime = DateObject 60000, act_endTime = DateObject 1440000,
     act_date = ''1970-01-01'', act_energyLevel = Low, act_duration = Number (Fin 23),
     act_points = Number (Fin (- (6905519428634761 / 18014398509481984)))\<rparr>"

definition MAX_VALUE :: real where
  "MAX_VALUE = (2 ^ 53 - 1) * 2 ^ 971"

definition exampleLongest :: ActivityLog where
  "exampleLongest = \<lparr>act_id = ''a6'', act_name = ''Forever'', act_categoryId = ''deep-work'',
     act_startTime = DateObject 0, act_endTime = DateObject 0, act_date = ''1970-01-01'',
     act_energyLevel = High, act_duration = Number (Fin MAX_VALUE), act_points = Number (Fin 0)\<rparr>"

definition exampleEndless :: ActivityLog where
  "exampleEndless = \<lparr>act_id = ''a7'', act_name = ''Endless'', act_categoryId = ''deep-work'',
     act_startTime = DateObject 0, act_endTime = InvalidDate, act_date = ''1970-01-01'',
     act_energyLevel = High, act_duration = Number PInf, act_points = Number PInf\<rparr>"

section \<open>Facts about the arithmetic\<close>

subsection \<open>Binades\<close>

lemma pow2_pos [simp]: "0 < (2::real) powi e"
  by (simp add: zero_less_power_int)

lemma pow2_Suc: "(2::real) powi (e + 1) = 2 * 2 powi e"
  by (simp add: power_int_add)

lemma pow2_mono: "a \<le> b \<Longrightarrow> (2::real) powi a \<le> 2 powi b"
  by (simp add: power_int_increasing)

lemma pow2_split: "(2::real) powi (e + 1) = 2 ^ 53 * 2 powi (e - 52)"
proof -
  have "e + 1 = 53 + (e - 52)" by simp
  then have "(2::real) powi (e + 1) = 2 powi (53 + (e - 52))" by (rule arg_cong)
  also have "\<dots> = 2 powi 53 * 2 powi (e - 52)" by (subst power_int_add) simp_all
  finally show ?thesis by simp
qed

lemma pow2_split': "(2::real) powi e = 2 ^ 52 * 2 powi (e - 52)"
proof -
  have "e = 52 + (e - 52)" by simp
  then have "(2::real) powi e = 2 powi (52 + (e - 52))" by (rule arg_cong)
  also have "\<dots> = 2 powi 52 * 2 powi (e - 52)" by (subst power_int_add) simp_all
  finally show ?thesis by simp
qed

lemma binadeUp_spec:
  assumes "1 \<le> x" and "e \<le> 1024"
  shows "e \<le> binadeUp x e \<and> binadeUp x e \<le> 1024 \<and> 2 powi (binadeUp x e) \<le> x * 2 powi e
         \<and> (binadeUp x e < 1024 \<longrightarrow> x * 2 powi e < 2 powi (binadeUp x e + 1))"
  using assms
proof (induction x e rule: binadeUp.induct)
  case (1 x e)
  show ?case
  proof (cases "2 \<le> x \<and> e < 1024")
    case True
    then have eq: "binadeUp x e = binadeUp (x / 2) (e + 1)"
      by (subst binadeUp.simps) simp
    have scale: "x / 2 * 2 powi (e + 1) = x * 2 powi e"
      by (simp add: pow2_Suc)
    from True have "1 \<le> x / 2" and "e + 1 \<le> 1024" by simp_all
    from "1.IH" [OF True this] show ?thesis
      unfolding eq scale by simp
  next
    case False
    then have eq: "binadeUp x e = e"
      by (subst binadeUp.simps) auto
    have "2 powi e \<le> x * 2 powi e"
      using "1.prems"(1) by simp
    moreover have "x * 2 powi e < 2 powi (e + 1)" if "e < 1024"
      using that False by (simp add: pow2_Suc)
    ultimately show ?thesis
      using "1.prems"(2) unfolding eq by simp
  qed
qed

lemma binadeDown_spec:
  assumes "0 < x" and "x < 2" and "- 1022 \<le> e"
  shows "binadeDown x e \<le> e \<and> - 1022 \<le> binadeDown x e \<and> x * 2 powi e < 2 powi (binadeDown x e + 1)
         \<and> (- 1022 < binadeDown x e \<longrightarrow> 2 powi (binadeDown x e) \<le> x * 2 powi e)"
  using assms
proof (induction x e rule: binadeDown.induct)
  case (1 x e)
  show ?case
  proof (cases "x < 1 \<and> - 1022 < e")
    case True
    then have eq: "binadeDown x e = binadeDown (x * 2) (e - 1)"
      by (subst binadeDown.simps) simp
    have scale: "x * 2 * 2 powi (e - 1) = x * 2 powi e"
      using pow2_Suc [of "e - 1"] by simp
    from True "1.prems" have "0 < x * 2" and "x * 2 < 2" and "- 1022 \<le> e - 1" by simp_all
    from "1.IH" [OF True this] show ?thesis
      unfolding eq scale by simp
  next
    case False
    then have eq: "binadeDown x e = e"
      by (subst binadeDown.simps) auto
    have "x * 2 powi e < 2 powi (e + 1)"
      using "1.prems"(2) by (simp add: pow2_Suc)
    moreover have "2 powi e \<le> x * 2 powi e" if "- 1022 < e"
      using that False by simp
    ultimately show ?thesis
      using "1.prems"(3) unfolding eq by simp
  qed
qed

text \<open>The binade of a positive number lies where the definition says.\<close>

lemma binade_spec:
  assumes "0 < x"
  shows "- 1022 \<le> binade x" and "binade x \<le> 1024"
    and "binade x < 1024 \<Longrightarrow> x < 2 powi (binade x + 1)"
    and "- 1022 < binade x \<Longrightarrow> 2 powi (binade x) \<le> x"
proof -
  have "- 1022 \<le> binade x \<and> binade x \<le> 1024 \<and> (binade x < 1024 \<longrightarrow> x < 2 powi (binade x + 1))
        \<and> (- 1022 < binade x \<longrightarrow> 2 powi (binade x) \<le> x)"
  proof (cases "1 \<le> x")
    case True
    with assms have b: "binade x = binadeUp x 0" by (simp add: binade_def)
    from binadeUp_spec [OF True, of 0] show ?thesis
      unfolding b by simp
  next
    case False
    with assms have b: "binade x = binadeDown x 0" by (simp add: binade_def)
    from False have "x < 2" by simp
    from binadeDown_spec [OF assms this, of 0] show ?thesis
      unfolding b by simp
  qed
  then show "- 1022 \<le> binade x" and "binade x \<le> 1024"
    and "binade x < 1024 \<Longrightarrow> x < 2 powi (binade x + 1)"
    and "- 1022 < binade x \<Longrightarrow> 2 powi (binade x) \<le> x"
    by simp_all
qed

lemma binade_eqI:
  assumes "0 < x" and "- 1022 < k" and "k < 1024" and "2 powi k \<le> x" and "x < 2 powi (k + 1)"
  shows "binade x = k"
proof (rule ccontr)
  assume ne: "binade x \<noteq> k"
  show False
  proof (cases "binade x < k")
    case True
    then have "x < 2 powi (binade x + 1)"
      using binade_spec(3) [OF assms(1)] assms(3) by simp
    also have "\<dots> \<le> 2 powi k"
      using True by (intro pow2_mono) simp
    finally show False using assms(4) by simp
  next
    case False
    with ne have gt: "k < binade x" by simp
    then have "2 powi (k + 1) \<le> (2::real) powi (binade x)"
      by (intro pow2_mono) simp
    also have "\<dots> \<le> x"
      using binade_spec(4) [OF assms(1)] gt assms(2) by simp
    finally show False using assms(5) by simp
  qed
qed

lemma binade_low:
  assumes "0 < x" and "x < 2 powi (- 1021)"
  shows "binade x = - 1022"
proof (rule ccontr)
  assume "binade x \<noteq> - 1022"
  with binade_spec(1) [OF assms(1)] have gt: "- 1022 < binade x" by simp
  then have "(2::real) powi (- 1021) \<le> 2 powi (binade x)"
    by (intro pow2_mono) simp
  also have "\<dots> \<le> x"
    using binade_spec(4) [OF assms(1)] gt by simp
  finally show False using assms(2) by simp
qed

lemma binade_mono:
  assumes "0 < x" and "x \<le> y"
  shows "binade x \<le> binade y"
proof (rule ccontr)
  assume "\<not> binade x \<le> binade y"
  then have lt: "binade y < binade x" by simp
  from assms have y: "0 < y" by simp
  have "binade y < 1024"
    using lt binade_spec(2) [OF assms(1)] by simp
  then have "y < 2 powi (binade y + 1)"
    by (rule binade_spec(3) [OF y])
  also have "\<dots> \<le> 2 powi (binade x)"
    using lt by (intro pow2_mono) simp
  also have "\<dots> \<le> x"
    using binade_spec(4) [OF assms(1)] lt binade_spec(1) [OF y] by simp
  finally show False using assms(2) by simp
qed


subsection \<open>Rounding to an integer\<close>

lemma roundHalfEven_of_int [simp]: "roundHalfEven (of_int n) = n"
  by (simp add: roundHalfEven_def)

lemma roundHalfEven_floor: "\<lfloor>r\<rfloor> \<le> roundHalfEven r" "roundHalfEven r \<le> \<lfloor>r\<rfloor> + 1"
  by (simp_all add: roundHalfEven_def Let_def)

lemma roundHalfEven_ge:
  assumes "of_int n \<le> r"
  shows "n \<le> roundHalfEven r"
proof -
  have "n \<le> \<lfloor>r\<rfloor>"
    using assms by (simp add: le_floor_iff)
  then show ?thesis
    using roundHalfEven_floor(1) [of r] by simp
qed

lemma roundHalfEven_le:
  assumes "r \<le> of_int n"
  shows "roundHalfEven r \<le> n"
proof (cases "r = of_int n")
  case True
  then show ?thesis by simp
next
  case False
  with assms have "r < of_int n" by simp
  then have "\<lfloor>r\<rfloor> < n" by (simp add: floor_less_iff)
  with roundHalfEven_floor(2) [of r] show ?thesis by simp
qed

lemma roundHalfEven_mono:
  assumes "r \<le> s"
  shows "roundHalfEven r \<le> roundHalfEven s"
proof (cases "\<lfloor>r\<rfloor> = \<lfloor>s\<rfloor>")
  case True
  have "r - of_int \<lfloor>r\<rfloor> \<le> s - of_int \<lfloor>s\<rfloor>"
    using assms True by simp
  then show ?thesis
    unfolding roundHalfEven_def Let_def True by auto
next
  case False
  with assms have "\<lfloor>r\<rfloor> < \<lfloor>s\<rfloor>"
    by (simp add: floor_mono less_le)
  then have "roundHalfEven r \<le> \<lfloor>s\<rfloor>"
    using roundHalfEven_floor(2) [of r] by simp
  then show ?thesis
    using roundHalfEven_floor(1) [of s] by simp
qed

lemma roundHalfEven_err: "\<bar>of_int (roundHalfEven r) - r\<bar> \<le> 1 / 2"
proof -
  have "of_int \<lfloor>r\<rfloor> \<le> r" and "r < of_int \<lfloor>r\<rfloor> + 1"
    by linarith+
  then show ?thesis
    unfolding roundHalfEven_def Let_def by (auto simp: abs_le_iff)
qed

subsection \<open>Rounding to a double\<close>

lemma roundHalfEven_0 [simp]: "roundHalfEven 0 = 0"
  using roundHalfEven_of_int [of 0] by simp

lemma roundReal_0 [simp]: "roundReal 0 = 0"
  by (simp add: roundReal_def)

lemma roundReal_nonneg: "0 \<le> x \<Longrightarrow> 0 \<le> roundReal x"
  unfolding roundReal_def Let_def
  by (intro mult_nonneg_nonneg) (simp_all add: roundHalfEven_ge)

lemma roundReal_upper:
  assumes "0 < x" and "binade x < 1024"
  shows "roundReal x \<le> 2 powi (binade x + 1)"
proof -
  let ?q = "(2::real) powi (binade x - 52)"
  have "x < 2 ^ 53 * ?q"
    using binade_spec(3) [OF assms] by (simp add: pow2_split)
  then have "x / ?q \<le> of_int (2 ^ 53)"
    by (simp add: pos_divide_le_eq)
  then have "roundHalfEven (x / ?q) \<le> 2 ^ 53"
    by (rule roundHalfEven_le)
  then have "of_int (roundHalfEven (x / ?q)) \<le> (2 ^ 53 :: real)"
    by (metis of_int_le_iff of_int_numeral of_int_power)
  then show ?thesis
    unfolding roundReal_def Let_def pow2_split [of "binade x"]
    by (intro mult_right_mono) simp_all
qed

lemma roundReal_lower:
  assumes "0 < x" and "- 1022 < binade x"
  shows "2 powi (binade x) \<le> roundReal x"
proof -
  let ?q = "(2::real) powi (binade x - 52)"
  have "2 ^ 52 * ?q \<le> x"
    using binade_spec(4) [OF assms] pow2_split' [of "binade x"] by simp
  then have "of_int (2 ^ 52) \<le> x / ?q"
    by (simp add: pos_le_divide_eq)
  then have "2 ^ 52 \<le> roundHalfEven (x / ?q)"
    by (rule roundHalfEven_ge)
  then have "(2 ^ 52 :: real) \<le> of_int (roundHalfEven (x / ?q))"
    by (metis of_int_le_iff of_int_numeral of_int_power)
  then have "2 ^ 52 * ?q \<le> of_int (roundHalfEven (x / ?q)) * ?q"
    by (intro mult_right_mono) simp_all
  then show ?thesis
    unfolding roundReal_def Let_def using pow2_split' [of "binade x"] by simp
qed

lemma roundReal_mono:
  assumes "0 \<le> x" and "x \<le> y"
  shows "roundReal x \<le> roundReal y"
proof (cases "x = 0")
  case True
  then show ?thesis
    using assms roundReal_nonneg [of y] by simp
next
  case False
  with assms have x: "0 < x" and y: "0 < y" by simp_all
  have le: "binade x \<le> binade y"
    using x assms(2) by (rule binade_mono)
  show ?thesis
  proof (cases "binade x = binade y")
    case True
    let ?q = "(2::real) powi (binade y - 52)"
    have "x / ?q \<le> y / ?q"
      using assms(2) by (simp add: divide_right_mono)
    then have "roundHalfEven (x / ?q) \<le> roundHalfEven (y / ?q)"
      by (rule roundHalfEven_mono)
    then show ?thesis
      unfolding roundReal_def Let_def True by (intro mult_right_mono) simp_all
  next
    case False
    with le have lt: "binade x < binade y" by simp
    have "binade x < 1024"
      using lt binade_spec(2) [OF y] by simp
    then have "roundReal x \<le> 2 powi (binade x + 1)"
      by (rule roundReal_upper [OF x])
    also have "\<dots> \<le> 2 powi (binade y)"
      using lt by (intro pow2_mono) simp
    also have "\<dots> \<le> roundReal y"
      using lt binade_spec(1) [OF x] by (intro roundReal_lower [OF y]) simp
    finally show ?thesis .
  qed
qed

lemma roundReal_exact:
  assumes "x = of_int n * 2 powi (binade x - 52)"
  shows "roundReal x = x"
proof -
  have "x / 2 powi (binade x - 52) = of_int n"
    using assms by (simp add: field_simps)
  then show ?thesis
    unfolding roundReal_def Let_def using assms by simp
qed


lemma pow2_less_imp: "(2::real) powi a < 2 powi b \<Longrightarrow> a < b"
  by (rule ccontr) (simp add: not_less pow2_mono leD)

lemma roundReal_idem:
  assumes "0 \<le> x" and "roundReal x < 2 powi 1024"
  shows "roundReal (roundReal x) = roundReal x"
proof (cases "roundReal x = 0")
  case True
  then show ?thesis by simp
next
  case False
  let ?y = "roundReal x"
  let ?e = "binade x"
  from False assms(1) have x: "0 < x"
    by (cases "x = 0") simp_all
  from False roundReal_nonneg [OF assms(1)] have y: "0 < ?y" by simp
  have e_hi: "?e < 1024"
  proof (rule ccontr)
    assume "\<not> ?e < 1024"
    with binade_spec(2) [OF x] have e: "?e = 1024" by simp
    then have "2 powi 1024 \<le> ?y"
      using roundReal_lower [OF x] by simp
    with assms(2) show False by simp
  qed
  have up: "?y \<le> 2 powi (?e + 1)"
    using x e_hi by (rule roundReal_upper)
  show ?thesis
  proof (cases "?y = 2 powi (?e + 1)")
    case True
    then have "(2::real) powi (?e + 1) < 2 powi 1024"
      using assms(2) by simp
    then have "?e + 1 < 1024" by (rule pow2_less_imp)
    moreover have "?y < 2 powi (?e + 1 + 1)"
      unfolding True pow2_Suc [of "?e + 1"] using pow2_pos [of "?e + 1"] by linarith
    ultimately have b: "binade ?y = ?e + 1"
      using binade_spec(1) [OF x] True by (intro binade_eqI [OF y]) simp_all
    have "?y = of_int (2 ^ 52) * 2 powi (binade ?y - 52)"
      unfolding b using True pow2_split' [of "?e + 1"] by simp
    then show ?thesis by (rule roundReal_exact)
  next
    case False
    with up have lt: "?y < 2 powi (?e + 1)" by simp
    have b: "binade ?y = ?e"
    proof (cases "- 1022 < ?e")
      case True
      then have "2 powi ?e \<le> ?y"
        by (rule roundReal_lower [OF x])
      then show ?thesis
        using True e_hi lt by (intro binade_eqI [OF y]) simp_all
    next
      case False
      with binade_spec(1) [OF x] have e: "?e = - 1022" by simp
      with lt have "?y < 2 powi (- 1021)" by simp
      then show ?thesis
        unfolding e by (rule binade_low [OF y])
    qed
    have "?y = of_int (roundHalfEven (x / 2 powi (?e - 52))) * 2 powi (binade ?y - 52)"
      unfolding b by (simp add: roundReal_def Let_def)
    then show ?thesis by (rule roundReal_exact)
  qed
qed

lemma roundReal_nat:
  assumes "n \<le> 2 ^ 53"
  shows "roundReal (real n) = real n"
proof (cases "n = 0")
  case True
  then show ?thesis by simp
next
  case False
  let ?x = "real n"
  let ?e = "binade ?x"
  from False have x: "0 < ?x" and x1: "1 \<le> ?x" by simp_all
  from assms have xle: "?x \<le> 2 ^ 53"
    by (metis of_nat_le_iff of_nat_numeral of_nat_power)
  have lo: "- 1022 < ?e"
  proof (rule ccontr)
    assume "\<not> - 1022 < ?e"
    with binade_spec(1) [OF x] have e: "?e = - 1022" by simp
    then have "?x < 2 powi (- 1021)"
      using binade_spec(3) [OF x] by simp
    also have "\<dots> \<le> 2 powi 0" by (intro pow2_mono) simp
    finally show False using x1 by simp
  qed
  then have ge: "2 powi ?e \<le> ?x"
    by (rule binade_spec(4) [OF x])
  have hi: "?e \<le> 53"
  proof (rule ccontr)
    assume "\<not> ?e \<le> 53"
    then have "(2::real) powi 54 \<le> 2 powi ?e" by (intro pow2_mono) simp
    with ge xle show False by simp
  qed
  show ?thesis
  proof (cases "?e = 53")
    case True
    with ge xle have "?x = 2 ^ 53" by simp
    then have "?x = of_int (2 ^ 52) * 2 powi (?e - 52)"
      unfolding True by simp
    then show ?thesis by (rule roundReal_exact)
  next
    case False
    with hi have k: "0 \<le> 52 - ?e" by simp
    have "(2::real) powi (52 - ?e) * 2 powi (?e - 52) = 2 powi ((52 - ?e) + (?e - 52))"
      by (subst power_int_add) simp_all
    then have one: "(2::real) powi (52 - ?e) * 2 powi (?e - 52) = 1" by simp
    have "(2::real) powi (52 - ?e) = of_int (2 ^ nat (52 - ?e))"
      using k by (simp add: power_int_def)
    with one have "?x = of_int (int n * 2 ^ nat (52 - ?e)) * 2 powi (?e - 52)"
      by (simp add: mult.assoc)
    then show ?thesis by (rule roundReal_exact)
  qed
qed

lemma roundReal_err:
  assumes "2 powi (- 1022) \<le> x"
  shows "roundReal x \<le> x * (1 + 2 powi (- 53))"
proof -
  let ?e = "binade x"
  let ?q = "(2::real) powi (?e - 52)"
  have x: "0 < x"
    using assms pow2_pos [of "- 1022"] by linarith
  have ge: "2 powi ?e \<le> x"
  proof (cases "- 1022 < ?e")
    case True
    then show ?thesis by (rule binade_spec(4) [OF x])
  next
    case False
    with binade_spec(1) [OF x] have "?e = - 1022" by simp
    with assms show ?thesis by simp
  qed
  have "of_int (roundHalfEven (x / ?q)) \<le> x / ?q + 1 / 2"
    using roundHalfEven_err [of "x / ?q"] by linarith
  then have "of_int (roundHalfEven (x / ?q)) * ?q \<le> (x / ?q + 1 / 2) * ?q"
    by (intro mult_right_mono) simp_all
  also have "\<dots> = x + ?q / 2"
    by (simp add: field_simps)
  also have "?q / 2 = 2 powi ?e * 2 powi (- 53)"
  proof -
    have "?e - 52 = (?e + - 53) + 1" by simp
    then have "?q = 2 powi ((?e + - 53) + 1)" by (rule arg_cong)
    also have "\<dots> = 2 * 2 powi (?e + - 53)" by (rule pow2_Suc)
    also have "2 powi (?e + - 53) = (2::real) powi ?e * 2 powi (- 53)"
      by (subst power_int_add) simp_all
    finally show ?thesis by simp
  qed
  also have "x + 2 powi ?e * 2 powi (- 53) \<le> x + x * 2 powi (- 53)"
    using ge by (simp add: mult_right_mono)
  finally show ?thesis
    unfolding roundReal_def Let_def by (simp add: algebra_simps)
qed

subsection \<open>Doubles\<close>

lemma round64_nonneg:
  assumes "0 \<le> x"
  shows "round64 x = (if 2 powi 1024 \<le> roundReal x then PInf else Fin (roundReal x))"
proof (cases "x = 0")
  case True
  then show ?thesis by (simp add: round64_def)
next
  case False
  with assms have "0 < x" by simp
  moreover have "0 \<le> roundReal x" using assms by (rule roundReal_nonneg)
  ultimately show ?thesis
    using False by (simp add: round64_def Let_def)
qed

lemma round64_nat:
  assumes "n \<le> 2 ^ 53"
  shows "round64 (real n) = Fin (real n)"
proof -
  have "real n \<le> 2 ^ 53"
    using assms by (metis of_nat_le_iff of_nat_numeral of_nat_power)
  also have "\<dots> < (2::real) powi 1024" by simp
  finally have "\<not> 2 powi 1024 \<le> real n" by simp
  then show ?thesis
    using round64_nonneg [of "real n"] roundReal_nat [OF assms] by simp
qed

lemma round64_numeral [simp]:
  "numeral k \<le> (2 ^ 53 :: nat) \<Longrightarrow> round64 (numeral k) = Fin (numeral k)"
  using round64_nat [of "numeral k"] by simp

lemma round64_0 [simp]: "round64 0 = Fin 0"
  by (simp add: round64_def)

lemma round64_1 [simp]: "round64 1 = Fin 1"
  using round64_nat [of 1] by simp

lemma round64_range:
  assumes "0 \<le> x" and "x \<le> real n" and "n \<le> 2 ^ 53"
  shows "round64 x = Fin (roundReal x)" and "0 \<le> roundReal x" and "roundReal x \<le> real n"
proof -
  show le: "roundReal x \<le> real n"
    using roundReal_mono [OF assms(1,2)] roundReal_nat [OF assms(3)] by simp
  have "real n \<le> 2 ^ 53"
    using assms(3) by (metis of_nat_le_iff of_nat_numeral of_nat_power)
  also have "\<dots> < (2::real) powi 1024" by simp
  finally have "roundReal x < 2 powi 1024" using le by simp
  then show "round64 x = Fin (roundReal x)"
    using round64_nonneg [OF assms(1)] by simp
  show "0 \<le> roundReal x" using assms(1) by (rule roundReal_nonneg)
qed

lemma nonnegD_round64:
  assumes "0 \<le> x"
  shows "nonnegD (round64 x)"
proof (cases "2 powi 1024 \<le> roundReal x")
  case True
  then show ?thesis
    using round64_nonneg [OF assms] by (simp add: nonnegD_def)
next
  case False
  then have "roundReal (roundReal x) = roundReal x"
    using assms by (intro roundReal_idem) simp_all
  then show ?thesis
    using False round64_nonneg [OF assms] roundReal_nonneg [OF assms] by (simp add: nonnegD_def)
qed

lemma dle_round64:
  assumes "0 \<le> x" and "x \<le> y"
  shows "dle (round64 x) (round64 y)"
proof -
  have y: "0 \<le> y" using assms by simp
  have le: "roundReal x \<le> roundReal y"
    using assms by (rule roundReal_mono)
  show ?thesis
    unfolding round64_nonneg [OF assms(1)] round64_nonneg [OF y] using le by auto
qed

lemma nonnegD_cases:
  assumes "nonnegD v"
  obtains x where "v = Fin x" and "0 \<le> x" and "roundReal x = x" | "v = PInf"
  using assms by (cases v) (auto simp: nonnegD_def)

lemma round64_fixed:
  assumes "0 \<le> x" and "roundReal x = x"
  shows "dle (Fin x) (round64 x)"
  using round64_nonneg [OF assms(1)] assms(2) by auto

lemma nonnegD_dadd:
  assumes "nonnegD a" and "0 \<le> d"
  shows "nonnegD (dadd a (Fin d))"
  using assms(1)
proof (cases rule: nonnegD_cases)
  case (1 x)
  then show ?thesis using assms(2) by (simp add: nonnegD_round64)
next
  case 2
  then show ?thesis by (simp add: nonnegD_def)
qed

lemma dle_refl: "nonnegD a \<Longrightarrow> dle a a"
  by (erule nonnegD_cases) simp_all

lemma dle_trans: "dle a b \<Longrightarrow> dle b c \<Longrightarrow> dle a c"
  by (cases a; cases b; cases c) simp_all

lemma dle_dadd_self:
  assumes "nonnegD a" and "0 \<le> d"
  shows "dle a (dadd a (Fin d))"
  using assms(1)
proof (cases rule: nonnegD_cases)
  case (1 x)
  have "dle (round64 x) (round64 (x + d))"
    using 1 assms(2) by (intro dle_round64) simp_all
  moreover have "dle (Fin x) (round64 x)"
    using 1 by (intro round64_fixed)
  ultimately show ?thesis
    using 1 by (simp add: dle_trans)
next
  case 2
  then show ?thesis by simp
qed

lemma dadd_mono:
  assumes "nonnegD a" and "nonnegD b" and "dle a b" and "0 \<le> d"
  shows "dle (dadd a (Fin d)) (dadd b (Fin d))"
  using assms(1)
proof (cases rule: nonnegD_cases)
  case (1 x)
  note a = this
  from assms(2) show ?thesis
  proof (cases rule: nonnegD_cases)
    case (1 y)
    then show ?thesis
      using a assms(3,4) by (simp add: dle_round64)
  next
    case 2
    have "nonnegD (round64 (x + d))"
      using a assms(4) by (intro nonnegD_round64) simp
    then show ?thesis
      using a 2 by (auto elim!: nonnegD_cases)
  qed
next
  case 2
  then show ?thesis
    using assms(2,3) by (auto elim!: nonnegD_cases)
qed

text \<open>The same for an added number that is not negative and may be infinite.\<close>

lemma nonnegD_dadd_any:
  assumes "nonnegD a" and "dle (Fin 0) v"
  shows "nonnegD (dadd a v)"
proof (cases v)
  case (Fin d)
  then show ?thesis using assms by (simp add: nonnegD_dadd)
next
  case PInf
  then show ?thesis using assms(1) by (cases a) (simp_all add: nonnegD_def)
qed (use assms(2) in simp_all)

lemma dle_dadd_self_any:
  assumes "nonnegD a" and "dle (Fin 0) v"
  shows "dle a (dadd a v)"
proof (cases v)
  case (Fin d)
  then show ?thesis using assms by (simp add: dle_dadd_self)
next
  case PInf
  then show ?thesis using assms(1) by (auto elim!: nonnegD_cases)
qed (use assms(2) in simp_all)

lemma dadd_mono_any:
  assumes "nonnegD a" and "nonnegD b" and "dle a b" and "dle (Fin 0) v"
  shows "dle (dadd a v) (dadd b v)"
proof (cases v)
  case (Fin d)
  then show ?thesis using assms by (simp add: dadd_mono)
next
  case PInf
  then show ?thesis using assms(1,2) by (auto elim!: nonnegD_cases)
qed (use assms(4) in simp_all)


section \<open>Facts about the metrics engine\<close>

lemma activityStep_unresolved:
  "cm (act_categoryId a) = None \<Longrightarrow> activityStep cm a acc = acc"
  by (simp add: activityStep_def)

lemma fold_activityStep_filter:
  "fold (activityStep cm) (filter (\<lambda>a. cm (act_categoryId a) \<noteq> None) xs) acc
     = fold (activityStep cm) xs acc"
  by (induction xs arbitrary: acc) (auto simp: activityStep_unresolved)

lemma vitalityStep_unresolved:
  "vm (ve_bonusId e) = None \<Longrightarrow> vitalityStep vm e s = s"
  by (simp add: vitalityStep_def)

lemma fold_vitalityStep_filter:
  "fold (vitalityStep vm) (filter (\<lambda>e. vm (ve_bonusId e) \<noteq> None) xs) s
     = fold (vitalityStep vm) xs s"
  by (induction xs arbitrary: s) (auto simp: vitalityStep_unresolved)

text \<open>The two scores are the sums of the counted points.\<close>

lemma totalActivityScore_activityStep:
  "totalActivityScore (activityStep cm a acc)
     = (if cm (act_categoryId a) = None then totalActivityScore acc
        else dadd (totalActivityScore acc) (toNumber (act_points a)))"
  by (simp add: activityStep_def Let_def split: option.splits)

lemma totalActivityScore_fold:
  "totalActivityScore (fold (activityStep cm) xs acc)
     = fold (\<lambda>x s. dadd s x)
         (map (\<lambda>a. toNumber (act_points a)) (filter (\<lambda>a. cm (act_categoryId a) \<noteq> None) xs))
         (totalActivityScore acc)"
  by (induction xs arbitrary: acc) (simp_all add: totalActivityScore_activityStep)

lemma totalActivityScore_activityLoop:
  "totalActivityScore (activityLoop activities categories)
     = dsum (countedActivityPoints activities categories)"
  by (simp add: activityLoop_def dsum_def countedActivityPoints_def totalActivityScore_fold
        initialAcc_def)

lemma fold_vitalityStep_points:
  "fold (vitalityStep vm) xs s
     = fold (\<lambda>x s. dadd s x)
         (List.map_filter
            (\<lambda>e. if ve_completed e
                 then map_option (\<lambda>b. toNumber (bonus_points b)) (vm (ve_bonusId e))
                 else None) xs) s"
  by (induction xs arbitrary: s)
     (auto simp: vitalityStep_def List.map_filter_simps split: option.splits)

lemma vitalityLoop_points:
  "vitalityLoop vitalityEntries vitalityBonuses
     = dsum (countedBonusPoints vitalityEntries vitalityBonuses)"
  by (simp add: vitalityLoop_def dsum_def countedBonusPoints_def fold_vitalityStep_points)

lemma vitalityLoop_append:
  assumes "ve_completed e" and "vitalityMap vitalityBonuses (ve_bonusId e) = Some b"
  shows "vitalityLoop (es @ [e]) vitalityBonuses
         = dadd (vitalityLoop es vitalityBonuses) (toNumber (bonus_points b))"
  using assms by (simp add: vitalityLoop_def vitalityStep_def)

text \<open>The time accumulators when no duration is negative.\<close>

lemma timeInv_initialAcc: "timeInv initialAcc"
  by (simp add: timeInv_def initialAcc_def nonnegD_def)

lemma timeInv_activityStep:
  assumes "dle (Fin 0) (toNumber (act_duration a))" and "timeInv acc"
  shows "timeInv (activityStep cm a acc)"
proof (cases "cm (act_categoryId a)")
  case None
  then show ?thesis using assms(2) by (simp add: activityStep_def)
next
  case (Some category)
  let ?d = "toNumber (act_duration a)"
  let ?D = "deepWorkTime acc" and ?X = "distractionTime acc" and ?T = "acc_totalTimeLogged acc"
  from assms(2) have inv: "nonnegD ?D" "nonnegD ?X" "nonnegD ?T" "dle ?D ?T" "dle ?X ?T"
    by (simp_all add: timeInv_def)
  have T': "nonnegD (dadd ?T ?d)" and up: "dle ?T (dadd ?T ?d)"
    using inv(3) assms(1) by (simp_all add: nonnegD_dadd_any dle_dadd_self_any)
  have D_keep: "dle ?D (dadd ?T ?d)" and X_keep: "dle ?X (dadd ?T ?d)"
    using inv(4,5) up by (blast intro: dle_trans)+
  have D_add: "nonnegD (dadd ?D ?d)" "dle (dadd ?D ?d) (dadd ?T ?d)"
    using inv assms(1) by (simp_all add: nonnegD_dadd_any dadd_mono_any)
  have X_add: "nonnegD (dadd ?X ?d)" "dle (dadd ?X ?d) (dadd ?T ?d)"
    using inv assms(1) by (simp_all add: nonnegD_dadd_any dadd_mono_any)
  show ?thesis
    using Some inv T' D_keep X_keep D_add X_add
    by (simp add: timeInv_def activityStep_def Let_def)
qed

lemma timeInv_fold:
  assumes "\<forall>a \<in> set xs. dle (Fin 0) (toNumber (act_duration a))" and "timeInv acc"
  shows "timeInv (fold (activityStep cm) xs acc)"
  using assms by (induction xs arbitrary: acc) (simp_all add: timeInv_activityStep)

lemma timeInv_activityLoop:
  assumes "\<forall>a \<in> set activities. dle (Fin 0) (toNumber (act_duration a))"
  shows "timeInv (activityLoop activities categories)"
  unfolding activityLoop_def using assms timeInv_initialAcc by (rule timeInv_fold)

text \<open>A part of a finite positive total, divided by the total and taken times 100.\<close>

lemma ratio_in_range:
  assumes "nonnegD v" and "dle v (Fin t)" and "0 < t"
  shows "\<exists>f. dmul (ddiv v (Fin t)) (Fin 100) = Fin f \<and> 0 \<le> f \<and> f \<le> 100"
proof -
  from assms(1,2) obtain x where v: "v = Fin x" and x: "0 \<le> x" "x \<le> t"
    by (auto elim!: nonnegD_cases)
  let ?r = "roundReal (x / t)"
  have q: "0 \<le> x / t" "x / t \<le> real 1"
    using x assms(3) by simp_all
  have r: "round64 (x / t) = Fin ?r" "0 \<le> ?r" "?r \<le> 1"
    using round64_range [OF q] by simp_all
  have p: "0 \<le> ?r * 100" "?r * 100 \<le> real 100"
    using r by simp_all
  have f: "round64 (?r * 100) = Fin (roundReal (?r * 100))" "0 \<le> roundReal (?r * 100)"
      "roundReal (?r * 100) \<le> 100"
    using round64_range [OF p] by simp_all
  show ?thesis
    using v assms(3) r f by simp
qed

text \<open>Whole durations with a sum of at most \<open>2 ^ 53\<close>: the additions are exact.\<close>

lemma dadd_nat:
  assumes "m + n \<le> 2 ^ 53"
  shows "dadd (Fin (real m)) (Fin (real n)) = Fin (real (m + n))"
  using round64_nat [OF assms] by simp

lemma wholeInv_activityStep:
  assumes "wholeInv acc d x t" and "toNumber (act_duration a) = Fin (real n)"
    and "t + n \<le> 2 ^ 53"
  shows "\<exists>d' x' t'. wholeInv (activityStep cm a acc) d' x' t' \<and> t' \<le> t + n"
proof (cases "cm (act_categoryId a)")
  case None
  then have "wholeInv (activityStep cm a acc) d x t"
    using assms(1) by (simp add: activityStep_def)
  then show ?thesis by (intro exI [of _ d] exI [of _ x] exI [of _ t]) simp
next
  case (Some category)
  from assms(1) have acc: "deepWorkTime acc = Fin (real d)" "distractionTime acc = Fin (real x)"
      "acc_totalTimeLogged acc = Fin (real t)" "d + x \<le> t"
    by (simp_all add: wholeInv_def)
  have T: "dadd (Fin (real t)) (Fin (real n)) = Fin (real (t + n))"
    using assms(3) by (rule dadd_nat)
  have D: "dadd (Fin (real d)) (Fin (real n)) = Fin (real (d + n))"
    using assms(3) acc(4) by (intro dadd_nat) simp
  have X: "dadd (Fin (real x)) (Fin (real n)) = Fin (real (x + n))"
    using assms(3) acc(4) by (intro dadd_nat) simp
  consider "cat_name category = ''Deep Work''"
    | "cat_name category \<noteq> ''Deep Work''" "cat_name category = ''Distraction''"
    | "cat_name category \<noteq> ''Deep Work''" "cat_name category \<noteq> ''Distraction''"
    by blast
  then show ?thesis
  proof cases
    case 1
    then have "wholeInv (activityStep cm a acc) (d + n) x (t + n)"
      using Some acc assms(2) T D by (simp add: wholeInv_def activityStep_def Let_def)
    then show ?thesis by blast
  next
    case 2
    then have "wholeInv (activityStep cm a acc) d (x + n) (t + n)"
      using Some acc assms(2) T X by (simp add: wholeInv_def activityStep_def Let_def)
    then show ?thesis by blast
  next
    case 3
    then have "wholeInv (activityStep cm a acc) d x (t + n)"
      using Some acc assms(2) T by (simp add: wholeInv_def activityStep_def Let_def)
    then show ?thesis by blast
  qed
qed

lemma wholeInv_fold:
  assumes "map (\<lambda>a. toNumber (act_duration a)) xs = map (\<lambda>n. Fin (real n)) ns"
    and "wholeInv acc d x t"
    and "t + sum_list ns \<le> 2 ^ 53"
  shows "\<exists>d' x' t'. wholeInv (fold (activityStep cm) xs acc) d' x' t' \<and> t' \<le> t + sum_list ns"
  using assms
proof (induction xs arbitrary: acc d x t ns)
  case Nil
  then show ?case by auto
next
  case (Cons a xs)
  from Cons.prems(1) obtain n ms where ns: "ns = n # ms"
    and n: "toNumber (act_duration a) = Fin (real n)"
    and ms: "map (\<lambda>a. toNumber (act_duration a)) xs = map (\<lambda>n. Fin (real n)) ms"
    by (cases ns) auto
  have tn: "t + n \<le> 2 ^ 53"
    using Cons.prems(3) ns by simp
  from wholeInv_activityStep [OF Cons.prems(2) n tn, of cm]
  obtain d1 x1 t1 where s: "wholeInv (activityStep cm a acc) d1 x1 t1" and t1: "t1 \<le> t + n"
    by blast
  have "t1 + sum_list ms \<le> 2 ^ 53"
    using t1 Cons.prems(3) ns by simp
  from Cons.IH [OF ms s this]
  obtain d' x' t' where "wholeInv (fold (activityStep cm) xs (activityStep cm a acc)) d' x' t'"
    and "t' \<le> t1 + sum_list ms"
    by blast
  then show ?case
    using t1 ns by (intro exI [of _ d'] exI [of _ x'] exI [of _ t']) simp
qed

lemma wholeInv_activityLoop:
  assumes "map (\<lambda>a. toNumber (act_duration a)) activities = map (\<lambda>n. Fin (real n)) ns"
    and "sum_list ns \<le> 2 ^ 53"
  shows "\<exists>d x t. wholeInv (activityLoop activities categories) d x t \<and> t \<le> 2 ^ 53"
proof -
  have "wholeInv initialAcc 0 0 0"
    by (simp add: wholeInv_def initialAcc_def)
  from wholeInv_fold [OF assms(1) this, of "categoryMap categories"] assms(2)
  obtain d x t where w: "wholeInv (fold (activityStep (categoryMap categories)) activities initialAcc) d x t"
    and t: "t \<le> sum_list ns"
    by auto
  with assms(2) show ?thesis
    unfolding activityLoop_def by (intro exI [of _ d] exI [of _ x] exI [of _ t]) simp
qed

lemma roundReal_pow2_53: "roundReal (2 powi (- 53)) = 2 powi (- 53)"
proof -
  have "binade (2 powi (- 53)) = - 53"
    by (rule binade_eqI) simp_all
  then have "(2::real) powi (- 53) = of_int (2 ^ 52) * 2 powi (binade (2 powi (- 53)) - 52)"
    using pow2_split' [of "- 53"] by simp
  then show ?thesis by (rule roundReal_exact)
qed

lemma ratio_err:
  assumes "d \<le> t" and "0 < t" and "t \<le> 2 ^ 53"
  shows "\<exists>f. dmul (ddiv (Fin (real d)) (Fin (real t))) (Fin 100) = Fin f
           \<and> f \<le> 100 * (real d / real t) * (1 + 2 powi (- 53))\<^sup>2"
proof (cases "d = 0")
  case True
  then show ?thesis using assms(2) by simp
next
  case False
  let ?u = "(2::real) powi (- 53)"
  let ?x = "real d / real t"
  let ?r = "roundReal ?x"
  have tle: "real t \<le> 2 ^ 53"
    using assms(3) by (metis of_nat_le_iff of_nat_numeral of_nat_power)
  have "1 / 2 ^ 53 \<le> 1 / real t"
    using assms(2) tle by (intro divide_left_mono) simp_all
  also have "\<dots> \<le> ?x"
    using False assms(2) by (intro divide_right_mono) simp_all
  finally have lo: "?u \<le> ?x" by (simp add: power_int_minus)
  have q: "0 \<le> ?x" "?x \<le> real 1"
    using assms(1,2) by simp_all
  have r: "round64 ?x = Fin ?r" "0 \<le> ?r" "?r \<le> 1"
    using round64_range [OF q] by simp_all
  have tiny: "(2::real) powi (- 1022) \<le> ?u" by (intro pow2_mono) simp
  from tiny lo have "2 powi (- 1022) \<le> ?x" by (rule order_trans)
  then have r_err: "?r \<le> ?x * (1 + ?u)" by (rule roundReal_err)
  have r_lo: "?u \<le> ?r"
    using roundReal_mono [of ?u ?x] lo roundReal_pow2_53 by simp
  have p: "0 \<le> ?r * 100" "?r * 100 \<le> real 100"
    using r by simp_all
  have f: "round64 (?r * 100) = Fin (roundReal (?r * 100))"
    using round64_range [OF p] by simp
  have "?r \<le> ?r * 100" using r(2) by simp
  with r_lo have "?u \<le> ?r * 100" by (rule order_trans)
  with tiny have "2 powi (- 1022) \<le> ?r * 100" by (rule order_trans)
  then have "roundReal (?r * 100) \<le> ?r * 100 * (1 + ?u)" by (rule roundReal_err)
  also have "\<dots> \<le> (?x * (1 + ?u)) * 100 * (1 + ?u)"
    using r_err by (intro mult_right_mono) simp_all
  also have "\<dots> = 100 * ?x * (1 + ?u)\<^sup>2"
    by (simp add: power2_eq_square algebra_simps)
  finally show ?thesis
    using r(1) f assms(2) by simp
qed

text \<open>Evaluation of the engine and of the rounding at concrete numbers.\<close>

lemmas engine_defs = calculateDailyMetrics_def activityLoop_def vitalityLoop_def categoryMap_def
  vitalityMap_def new_Map_def activityStep_def vitalityStep_def initialAcc_def Let_def

lemmas round64_eval = round64_def roundReal_def binade_def binadeUp.simps binadeDown.simps
  roundHalfEven_def Let_def

lemma round64_MAX_VALUE: "round64 MAX_VALUE = Fin MAX_VALUE"
proof -
  have pos: "0 < MAX_VALUE" by (simp add: MAX_VALUE_def)
  have b: "binade MAX_VALUE = 1023"
    by (rule binade_eqI [OF pos]) (simp_all add: MAX_VALUE_def)
  have "MAX_VALUE = of_int (2 ^ 53 - 1) * 2 powi (binade MAX_VALUE - 52)"
    unfolding b by (simp add: MAX_VALUE_def)
  then have "roundReal MAX_VALUE = MAX_VALUE" by (rule roundReal_exact)
  moreover have "MAX_VALUE < 2 powi 1024" by (simp add: MAX_VALUE_def)
  ultimately show ?thesis
    using round64_nonneg [of MAX_VALUE] pos by simp
qed

lemma round64_overflow:
  assumes "2 powi 1024 \<le> x"
  shows "round64 x = PInf"
proof -
  have pos: "0 < x"
    using assms pow2_pos [of 1024] by linarith
  have "binade x = 1024"
  proof (rule ccontr)
    assume "binade x \<noteq> 1024"
    with binade_spec(2) [OF pos] have lt: "binade x < 1024" by simp
    then have "x < 2 powi (binade x + 1)" by (rule binade_spec(3) [OF pos])
    also have "\<dots> \<le> 2 powi 1024" using lt by (intro pow2_mono) simp
    finally show False using assms by simp
  qed
  then have "2 powi 1024 \<le> roundReal x"
    using roundReal_lower [OF pos] by simp
  then show ?thesis
    using round64_nonneg [of x] pos by simp
qed

section \<open>Claims about the metrics engine\<close>

text \<open>
  C1 (Scenario A). One activity of 120 minutes with stored points 6 and energy level High,
  whose category is named "Deep Work" and has 3 points per hour, and no vitality entries:
  the total score is 6, the focus ratio 100, the distraction ratio 0, the productivity
  throughput 3, and 120 minutes are counted under high energy. The other fields of the
  activity and of the category, and the list of bonuses, are arbitrary; every operation
  of this computation is exact in doubles.
\<close>

theorem scenario_A:
  "calculateDailyMetrics
     [\<lparr>act_id = i, act_name = n, act_categoryId = c, act_startTime = s, act_endTime = e,
       act_date = d, act_energyLevel = High, act_duration = Number (Fin 120),
       act_points = Number (Fin 6)\<rparr>]
     [\<lparr>cat_id = c, cat_name = ''Deep Work'', cat_points = Number (Fin 3), cat_color = col,
       cat_description = ds\<rparr>]
     [] vitalityBonuses
   = \<lparr>totalScore = Fin 6, focusRatio = Fin 100, distractionRatio = Fin 0,
      productivityThroughput = Fin 3, totalTimeLogged = Fin 120,
      energyFocusCorrelation = \<lparr>high = Fin 120, medium = Fin 0, low = Fin 0\<rparr>\<rparr>"
  by (simp add: engine_defs)

text \<open>
  C2. The engine is a total function: the model has no error branch because the source has
  none (a failed \<^verbatim>\<open>Map.get\<close> is \<^verbatim>\<open>undefined\<close> and the callback returns). An activity whose
  category id resolves to no category and a vitality entry whose bonus id resolves to no
  bonus contribute to no accumulator: dropping all of them changes neither the
  accumulators of the activity loop, nor the vitality score, nor the returned metrics.
\<close>

theorem dangling_references_skipped:
  "activityLoop (filter (\<lambda>a. categoryMap categories (act_categoryId a) \<noteq> None) activities) categories
     = activityLoop activities categories
   \<and> vitalityLoop (filter (\<lambda>e. vitalityMap vitalityBonuses (ve_bonusId e) \<noteq> None) vitalityEntries)
         vitalityBonuses
     = vitalityLoop vitalityEntries vitalityBonuses
   \<and> calculateDailyMetrics
       (filter (\<lambda>a. categoryMap categories (act_categoryId a) \<noteq> None) activities) categories
       (filter (\<lambda>e. vitalityMap vitalityBonuses (ve_bonusId e) \<noteq> None) vitalityEntries)
       vitalityBonuses
     = calculateDailyMetrics activities categories vitalityEntries vitalityBonuses"
proof -
  have acts: "activityLoop (filter (\<lambda>a. categoryMap categories (act_categoryId a) \<noteq> None) activities) categories
     = activityLoop activities categories"
    unfolding activityLoop_def by (rule fold_activityStep_filter)
  have ents: "vitalityLoop (filter (\<lambda>e. vitalityMap vitalityBonuses (ve_bonusId e) \<noteq> None) vitalityEntries)
         vitalityBonuses
     = vitalityLoop vitalityEntries vitalityBonuses"
    unfolding vitalityLoop_def by (rule fold_vitalityStep_filter)
  show ?thesis
    unfolding calculateDailyMetrics_def acts ents by simp
qed

text \<open>
  C3 (additivity), as amended. The total score is the double sum of the activity score and
  the vitality score; the activity score is the sum, added from left to right in doubles,
  of the stored points of the activities whose category resolves, and the vitality score
  is the like sum of the points of the completed entries whose bonus resolves. One more
  completed entry at the end of the list, whose bonus resolves and has \<open>p\<close> points, turns
  the vitality score \<open>v\<close> into the double sum of \<open>v\<close> and \<open>p\<close> and leaves the activity score
  \<open>a\<close>; when \<open>a\<close>, \<open>v\<close> and \<open>p\<close> are finite and the three additions \<open>a + v\<close>, \<open>v + p\<close> and
  \<open>a + (v + p)\<close> are exact in doubles, the total score rises from \<open>a + v\<close> to \<open>a + v + p\<close>, by
  exactly \<open>p\<close>.
\<close>

theorem totalScore_terms:
  "totalScore (calculateDailyMetrics activities categories vitalityEntries vitalityBonuses)
     = dadd (dsum (countedActivityPoints activities categories))
            (dsum (countedBonusPoints vitalityEntries vitalityBonuses))
   \<and> (ve_completed entry \<and> vitalityMap vitalityBonuses (ve_bonusId entry) = Some bonus \<longrightarrow>
        totalScore (calculateDailyMetrics activities categories (vitalityEntries @ [entry]) vitalityBonuses)
          = dadd (dsum (countedActivityPoints activities categories))
                 (dadd (dsum (countedBonusPoints vitalityEntries vitalityBonuses))
                       (toNumber (bonus_points bonus)))
        \<and> (dsum (countedActivityPoints activities categories) = Fin a \<and>
           dsum (countedBonusPoints vitalityEntries vitalityBonuses) = Fin v \<and>
           toNumber (bonus_points bonus) = Fin p \<and>
           round64 (a + v) = Fin (a + v) \<and>
           round64 (v + p) = Fin (v + p) \<and>
           round64 (a + (v + p)) = Fin (a + (v + p)) \<longrightarrow>
             totalScore (calculateDailyMetrics activities categories vitalityEntries vitalityBonuses)
               = Fin (a + v)
             \<and> totalScore (calculateDailyMetrics activities categories (vitalityEntries @ [entry])
                   vitalityBonuses)
               = Fin (a + v + p)))"
proof -
  have score: "totalScore (calculateDailyMetrics activities categories es vitalityBonuses)
      = dadd (dsum (countedActivityPoints activities categories)) (vitalityLoop es vitalityBonuses)" for es
    by (simp add: calculateDailyMetrics_def Let_def totalActivityScore_activityLoop)
  have more: "vitalityLoop (vitalityEntries @ [entry]) vitalityBonuses
      = dadd (dsum (countedBonusPoints vitalityEntries vitalityBonuses))
          (toNumber (bonus_points bonus))"
    if "ve_completed entry" and "vitalityMap vitalityBonuses (ve_bonusId entry) = Some bonus"
    using vitalityLoop_append [OF that] by (simp add: vitalityLoop_points)
  show ?thesis
    using more by (auto simp: score vitalityLoop_points add.assoc)
qed

theorem totalScore_terms_witness:
  "ve_completed exampleEntry \<and>
   vitalityMap defaultVitalityBonuses (ve_bonusId exampleEntry) = Some (hd defaultVitalityBonuses) \<and>
   toNumber (bonus_points (hd defaultVitalityBonuses)) = Fin 5 \<and>
   dsum (countedActivityPoints [exampleDeepWork] defaultCategories) = Fin 6 \<and>
   dsum (countedBonusPoints [] defaultVitalityBonuses) = Fin 0 \<and>
   round64 (6 + 0) = Fin (6 + 0) \<and>
   round64 (0 + 5) = Fin (0 + 5) \<and>
   round64 (6 + (0 + 5)) = Fin (6 + (0 + 5)) \<and>
   totalScore (calculateDailyMetrics [exampleDeepWork] defaultCategories [] defaultVitalityBonuses)
     = Fin 6 \<and>
   totalScore (calculateDailyMetrics [exampleDeepWork] defaultCategories [exampleEntry]
      defaultVitalityBonuses)
     = Fin 11"
proof -
  have h: "ve_completed exampleEntry \<and>
      vitalityMap defaultVitalityBonuses (ve_bonusId exampleEntry) = Some (hd defaultVitalityBonuses)"
    by (simp add: exampleEntry_def vitalityMap_def new_Map_def defaultVitalityBonuses_def)
  have p: "toNumber (bonus_points (hd defaultVitalityBonuses)) = Fin 5"
    by (simp add: defaultVitalityBonuses_def)
  have a: "dsum (countedActivityPoints [exampleDeepWork] defaultCategories) = Fin 6"
    by (simp add: dsum_def countedActivityPoints_def categoryMap_def new_Map_def
          defaultCategories_def exampleDeepWork_def)
  have v: "dsum (countedBonusPoints [] defaultVitalityBonuses) = Fin 0"
    by (simp add: dsum_def countedBonusPoints_def List.map_filter_simps)
  from totalScore_terms [of "[exampleDeepWork]" defaultCategories "[]" defaultVitalityBonuses
      exampleEntry "hd defaultVitalityBonuses" 6 0 5] h p a v
  show ?thesis
    by simp
qed

text \<open>
  The claim as stated fails: with one activity of one minute at one point per hour and the
  meditation bonus of 3 points already counted, the sleep bonus of 5 points raises the
  total score from \<open>3396464718975249 / 2 ^ 50\<close> to \<open>4512982126594185 / 2 ^ 49\<close>, which is
  neither the exact sum of the old score and 5 nor their sum in doubles.
\<close>

theorem totalScore_exactly_p_counterexample:
  "ve_completed exampleEntry \<and>
   vitalityMap defaultVitalityBonuses (ve_bonusId exampleEntry) = Some (hd defaultVitalityBonuses) \<and>
   toNumber (bonus_points (hd defaultVitalityBonuses)) = Fin 5 \<and>
   totalScore (calculateDailyMetrics [exampleOneMinute] defaultCategories [exampleMeditation]
      defaultVitalityBonuses)
     = Fin (3396464718975249 / 1125899906842624) \<and>
   totalScore (calculateDailyMetrics [exampleOneMinute] defaultCategories
      [exampleMeditation, exampleEntry] defaultVitalityBonuses)
     = Fin (4512982126594185 / 562949953421312) \<and>
   4512982126594185 / 562949953421312 \<noteq> 3396464718975249 / 1125899906842624 + (5::real) \<and>
   dadd (Fin (3396464718975249 / 1125899906842624)) (Fin 5)
     \<noteq> Fin (4512982126594185 / 562949953421312)"
  by (simp add: engine_defs defaultCategories_def defaultVitalityBonuses_def exampleOneMinute_def
        exampleMeditation_def exampleEntry_def)
     (simp add: round64_eval)

text \<open>
  C4 (ratio bounds), as amended. When every activity has a duration \<open>d\<close> with \<^verbatim>\<open>0 <= d\<close> (so
  none is negative and none is NaN) and the total logged time is finite (no duration is
  infinite and their sum has not overflowed), the focus ratio and the distraction ratio
  lie between 0 and 100; both are 0 when the total logged time is 0.
\<close>

theorem ratio_bounds_ok:
  assumes "\<forall>a \<in> set activities. dle (Fin 0) (toNumber (act_duration a))"
    and "totalTimeLogged (calculateDailyMetrics activities categories vitalityEntries vitalityBonuses)
         = Fin t"
  shows "(let m = calculateDailyMetrics activities categories vitalityEntries vitalityBonuses
          in dle (Fin 0) (focusRatio m) \<and> dle (focusRatio m) (Fin 100) \<and>
             dle (Fin 0) (distractionRatio m) \<and> dle (distractionRatio m) (Fin 100) \<and>
             (t = 0 \<longrightarrow> focusRatio m = Fin 0 \<and> distractionRatio m = Fin 0))"
proof -
  let ?acc = "activityLoop activities categories"
  have total: "acc_totalTimeLogged ?acc = Fin t"
    using assms(2) by (simp add: calculateDailyMetrics_def Let_def)
  have "timeInv ?acc"
    using assms(1) by (rule timeInv_activityLoop)
  then have inv: "nonnegD (deepWorkTime ?acc)" "dle (deepWorkTime ?acc) (Fin t)"
      "nonnegD (distractionTime ?acc)" "dle (distractionTime ?acc) (Fin t)"
    using total by (simp_all add: timeInv_def)
  show ?thesis
  proof (cases "0 < t")
    case False
    then show ?thesis
      using total by (simp add: calculateDailyMetrics_def Let_def)
  next
    case True
    from ratio_in_range [OF inv(1,2) True] ratio_in_range [OF inv(3,4) True]
    show ?thesis
      using True total by (auto simp: calculateDailyMetrics_def Let_def)
  qed
qed

theorem ratio_bounds_ok_witness:
  "dle (Fin 0) (toNumber (act_duration exampleDeepWork)) \<and>
   dle (Fin 0) (toNumber (act_duration exampleDistraction)) \<and>
   totalTimeLogged (calculateDailyMetrics [exampleDeepWork, exampleDistraction] defaultCategories [] [])
     = Fin 180 \<and>
   dle (Fin 0) (focusRatio (calculateDailyMetrics [exampleDeepWork, exampleDistraction] defaultCategories [] [])) \<and>
   dle (focusRatio (calculateDailyMetrics [exampleDeepWork, exampleDistraction] defaultCategories [] []))
     (Fin 100) \<and>
   dle (Fin 0) (distractionRatio (calculateDailyMetrics [exampleDeepWork, exampleDistraction] defaultCategories [] [])) \<and>
   dle (distractionRatio (calculateDailyMetrics [exampleDeepWork, exampleDistraction] defaultCategories [] []))
     (Fin 100)"
proof -
  have h: "\<forall>a \<in> set [exampleDeepWork, exampleDistraction]. dle (Fin 0) (toNumber (act_duration a))"
    by (simp add: exampleDeepWork_def exampleDistraction_def)
  have t: "totalTimeLogged (calculateDailyMetrics [exampleDeepWork, exampleDistraction] defaultCategories [] [])
     = Fin 180"
    by (simp add: engine_defs defaultCategories_def exampleDeepWork_def exampleDistraction_def)
  from h t ratio_bounds_ok [OF h t] show ?thesis
    by (simp add: Let_def)
qed

text \<open>
  The claim as stated fails when the sum of the durations is infinite: for two focus
  activities of the largest finite duration, and for one focus activity of infinite
  duration, the total logged time and the focus time are both infinite and the focus ratio
  is NaN, which is not at most 100.
\<close>

theorem ratio_bounds_overflow_counterexample:
  "dle (Fin 0) (toNumber (act_duration exampleLongest)) \<and>
   totalTimeLogged (calculateDailyMetrics [exampleLongest, exampleLongest] defaultCategories [] []) = PInf \<and>
   focusRatio (calculateDailyMetrics [exampleLongest, exampleLongest] defaultCategories [] []) = NaN \<and>
   \<not> dle (focusRatio (calculateDailyMetrics [exampleLongest, exampleLongest] defaultCategories [] []))
       (Fin 100) \<and>
   dle (Fin 0) (toNumber (act_duration exampleEndless)) \<and>
   totalTimeLogged (calculateDailyMetrics [exampleEndless] defaultCategories [] []) = PInf \<and>
   focusRatio (calculateDailyMetrics [exampleEndless] defaultCategories [] []) = NaN \<and>
   \<not> dle (focusRatio (calculateDailyMetrics [exampleEndless] defaultCategories [] [])) (Fin 100)"
proof -
  have "(2::real) powi 1024 \<le> MAX_VALUE + MAX_VALUE"
    by (simp add: MAX_VALUE_def)
  then have over: "round64 (MAX_VALUE + MAX_VALUE) = PInf"
    by (rule round64_overflow)
  have "0 \<le> MAX_VALUE" by (simp add: MAX_VALUE_def)
  then show ?thesis
    using over round64_MAX_VALUE
    by (simp add: engine_defs defaultCategories_def exampleLongest_def exampleEndless_def)
qed

text \<open>
  C10, as amended. One run of the loop body adds the duration to at most one of the focus
  and the distraction time. When the durations are whole numbers \<open>ns\<close> with a sum of at most
  \<open>2 ^ 53\<close> and the total logged time is positive, the focus ratio and the
  distraction ratio add up to at most \<open>100 * (1 + 2 ^ - 53) ^ 2\<close>: to at most 100 but for
  the rounding of the division and of the multiplication behind each ratio.
\<close>

theorem ratio_sum_ok:
  assumes "map (\<lambda>a. toNumber (act_duration a)) activities = map (\<lambda>n. Fin (real n)) ns"
    and "sum_list ns \<le> 2 ^ 53"
    and "dgt (totalTimeLogged (calculateDailyMetrics activities categories vitalityEntries vitalityBonuses))
           (Fin 0)"
  shows "(\<exists>f x. focusRatio (calculateDailyMetrics activities categories vitalityEntries vitalityBonuses)
             = Fin f
           \<and> distractionRatio (calculateDailyMetrics activities categories vitalityEntries vitalityBonuses)
             = Fin x
           \<and> f + x \<le> 100 * (1 + 2 powi (- 53))\<^sup>2)
       \<and> (deepWorkTime (activityStep cm a acc) = deepWorkTime acc
          \<or> distractionTime (activityStep cm a acc) = distractionTime acc)"
proof
  let ?acc = "activityLoop activities categories"
  let ?K = "(1 + (2::real) powi (- 53))\<^sup>2"
  from wholeInv_activityLoop [OF assms(1,2), of categories]
  obtain d x t where w: "wholeInv ?acc d x t" and t: "t \<le> 2 ^ 53" by blast
  then have acc: "deepWorkTime ?acc = Fin (real d)" "distractionTime ?acc = Fin (real x)"
      "acc_totalTimeLogged ?acc = Fin (real t)" "d + x \<le> t"
    by (simp_all add: wholeInv_def)
  have pos: "0 < t"
    using assms(3) acc(3) by (simp add: calculateDailyMetrics_def Let_def)
  from acc(4) have "d \<le> t" and "x \<le> t" by simp_all
  from ratio_err [OF this(1) pos t] ratio_err [OF this(2) pos t]
  obtain f g where f: "dmul (ddiv (Fin (real d)) (Fin (real t))) (Fin 100) = Fin f"
      "f \<le> 100 * (real d / real t) * ?K"
    and g: "dmul (ddiv (Fin (real x)) (Fin (real t))) (Fin 100) = Fin g"
      "g \<le> 100 * (real x / real t) * ?K"
    by blast
  have "f + g \<le> 100 * ((real d + real x) / real t) * ?K"
    using f(2) g(2) by (simp add: add_divide_distrib algebra_simps)
  also have "\<dots> \<le> 100 * 1 * ?K"
  proof -
    have "(real d + real x) / real t \<le> 1"
      using acc(4) pos by (simp add: field_simps)
    then show ?thesis
      by (intro mult_right_mono mult_left_mono) simp_all
  qed
  finally have "f + g \<le> 100 * ?K" by simp
  then show "\<exists>f x. focusRatio (calculateDailyMetrics activities categories vitalityEntries vitalityBonuses)
             = Fin f
           \<and> distractionRatio (calculateDailyMetrics activities categories vitalityEntries vitalityBonuses)
             = Fin x
           \<and> f + x \<le> 100 * ?K"
    using acc pos f(1) g(1) by (simp add: calculateDailyMetrics_def Let_def)
next
  show "deepWorkTime (activityStep cm a acc) = deepWorkTime acc
          \<or> distractionTime (activityStep cm a acc) = distractionTime acc"
    by (simp add: activityStep_def Let_def split: option.splits)
qed

theorem ratio_sum_ok_witness:
  "map (\<lambda>a. toNumber (act_duration a)) [exampleDeepWork, exampleDistraction]
     = map (\<lambda>n. Fin (real n)) [120, 60] \<and>
   sum_list [120, 60] \<le> (2 ^ 53 :: nat) \<and>
   dgt (totalTimeLogged (calculateDailyMetrics [exampleDeepWork, exampleDistraction] defaultCategories [] []))
     (Fin 0) \<and>
   (\<exists>f x. focusRatio (calculateDailyMetrics [exampleDeepWork, exampleDistraction] defaultCategories [] [])
            = Fin f
        \<and> distractionRatio (calculateDailyMetrics [exampleDeepWork, exampleDistraction] defaultCategories [] [])
            = Fin x
        \<and> f + x \<le> 100 * (1 + 2 powi (- 53))\<^sup>2)"
proof -
  have h1: "map (\<lambda>a. toNumber (act_duration a)) [exampleDeepWork, exampleDistraction]
     = map (\<lambda>n. Fin (real n)) [120, 60]"
    by (simp add: exampleDeepWork_def exampleDistraction_def)
  have h2: "sum_list [120, 60] \<le> (2 ^ 53 :: nat)"
    by simp
  have h3: "dgt (totalTimeLogged (calculateDailyMetrics [exampleDeepWork, exampleDistraction] defaultCategories [] []))
     (Fin 0)"
    by (simp add: engine_defs defaultCategories_def exampleDeepWork_def exampleDistraction_def)
  from ratio_sum_ok [OF h1 h2 h3] h1 h2 h3 show ?thesis
    by blast
qed

text \<open>
  The claim as stated fails: for a focus activity of 1 minute and a distraction of 23
  minutes the two ratios are \<open>4.166666666666666\<close> and \<open>95.83333333333334\<close>, whose sum is
  more than 100, as real numbers and as doubles.
\<close>

theorem ratio_sum_counterexample:
  "map (\<lambda>a. toNumber (act_duration a)) [exampleFocusMinute, exampleDistraction23]
     = map (\<lambda>n. Fin (real n)) [1, 23] \<and>
   sum_list [1, 23] \<le> (2 ^ 53 :: nat) \<and>
   dgt (totalTimeLogged (calculateDailyMetrics [exampleFocusMinute, exampleDistraction23]
          defaultCategories [] []))
     (Fin 0) \<and>
   focusRatio (calculateDailyMetrics [exampleFocusMinute, exampleDistraction23] defaultCategories [] [])
     = Fin (2345624805922133 / 562949953421312) \<and>
   distractionRatio (calculateDailyMetrics [exampleFocusMinute, exampleDistraction23] defaultCategories [] [])
     = Fin (3371835658513067 / 35184372088832) \<and>
   2345624805922133 / 562949953421312 + 3371835658513067 / 35184372088832 > (100::real) \<and>
   dgt (dadd (Fin (2345624805922133 / 562949953421312)) (Fin (3371835658513067 / 35184372088832)))
       (Fin 100)"
  by (simp add: engine_defs defaultCategories_def exampleFocusMinute_def exampleDistraction23_def)
     (simp add: round64_eval)

section \<open>Claims about the score colours\<close>

lemma scoreTier_eq:
  "scoreTier score =
     Some (if score \<ge> 20 then 5 else if score \<ge> 15 then 4 else if score \<ge> 10 then 3
           else if score \<ge> 5 then 2 else if score > 0 then 1 else 0)"
  by (simp add: scoreTier_def getScoreColor_def legend_def)

text \<open>
  C9. The colour of a score is always one of the six colours of the legend, so every score
  has exactly one tier, and a higher score never has a lower tier.
\<close>

theorem getScoreColor_total_monotonic:
  "(\<exists>i < 6. scoreTier score = Some i \<and> getScoreColor score = legend ! i)
   \<and> (s1 \<le> s2 \<longrightarrow> the (scoreTier s1) \<le> the (scoreTier s2))"
proof
  show "\<exists>i < 6. scoreTier score = Some i \<and> getScoreColor score = legend ! i"
    by (simp add: scoreTier_eq) (simp add: getScoreColor_def legend_def)
next
  show "s1 \<le> s2 \<longrightarrow> the (scoreTier s1) \<le> the (scoreTier s2)"
    by (simp add: scoreTier_eq)
qed

theorem getScoreColor_total_monotonic_witness:
  "(4::real) \<le> 12 \<and> scoreTier 4 = Some 1 \<and> scoreTier 12 = Some 3
   \<and> the (scoreTier 4) \<le> the (scoreTier 12)"
  using getScoreColor_total_monotonic [of 4 4 12]
  by (simp add: scoreTier_def getScoreColor_def legend_def)

section \<open>Facts about the entity store\<close>

lemma IDB_count_0_iff: "IDB_count store = 0 \<longleftrightarrow> store = fmempty"
proof
  assume "IDB_count store = 0"
  then have "fmdom store = {||}" by (simp add: IDB_count_def)
  then have "fmlookup store x = None" for x
    by (metis fmdom_notD fempty_iff)
  then show "store = fmempty" by (intro fmap_ext) simp
next
  assume "store = fmempty" then show "IDB_count store = 0" by (simp add: IDB_count_def)
qed

lemma fmupd_fmadd_left:
  "k |\<notin>| fmdom r \<Longrightarrow> fmupd k v m ++\<^sub>f r = fmupd k v (m ++\<^sub>f r)"
  by (intro fmap_ext) (auto simp: fmlookup_dom_iff)

lemma fold_put_distinct:
  "distinct (map keyPath xs) \<Longrightarrow>
   fold (IDB_put keyPath) xs m = m ++\<^sub>f fmap_of_list (map (\<lambda>v. (keyPath v, v)) xs)"
proof (induction xs arbitrary: m)
  case Nil
  then show ?case by simp
next
  case (Cons x xs)
  have notin: "keyPath x |\<notin>| fmdom (fmap_of_list (map (\<lambda>v. (keyPath v, v)) xs))"
    using Cons.prems by (auto simp: fset_of_list.rep_eq image_iff)
  then show ?case
  proof -
    have "fold (IDB_put keyPath) (x # xs) m = fold (IDB_put keyPath) xs (fmupd (keyPath x) x m)"
      by (simp add: IDB_put_def)
    also have "\<dots> = fmupd (keyPath x) x m ++\<^sub>f fmap_of_list (map (\<lambda>v. (keyPath v, v)) xs)"
      using Cons by simp
    finally show ?thesis
      using notin by (simp add: fmupd_fmadd_left)
  qed
qed



lemma fmran_fmap_of_list_keyed:
  assumes "distinct (map keyPath xs)"
  shows "fmran (fmap_of_list (map (\<lambda>v. (keyPath v, v)) xs)) = fset_of_list xs"
proof -
  have d: "distinct (map fst (map (\<lambda>v. (keyPath v, v)) xs))"
    using assms by (simp add: comp_def)
  have "y |\<in>| fmran (fmap_of_list (map (\<lambda>v. (keyPath v, v)) xs)) \<longleftrightarrow> y |\<in>| fset_of_list xs" for y
    by (auto simp: fmlookup_ran_iff fmlookup_of_list map_of_eq_Some_iff [OF d] fset_of_list.rep_eq)
  then show ?thesis
    by blast
qed

lemma forAwait_addCategory:
  assumes "distinct (map cat_id cs)"
    and "\<forall>c \<in> set cs. cat_id c |\<notin>| fmdom (db_categories d)"
  shows "forAwait addCategory cs (Some d)
         = (Inr (), Some (d\<lparr>db_categories := fold (IDB_put cat_id) cs (db_categories d)\<rparr>))"
  using assms
proof (induction cs arbitrary: d)
  case Nil
  then show ?case by simp
next
  case (Cons c cs)
  let ?d1 = "d\<lparr>db_categories := fmupd (cat_id c) c (db_categories d)\<rparr>"
  have first: "addCategory c (Some d) = (Inr (), Some ?d1)"
    using Cons.prems by (simp add: addCategory_def IDB_add_def)
  have "forAwait addCategory cs (Some ?d1)
        = (Inr (), Some (?d1\<lparr>db_categories := fold (IDB_put cat_id) cs (db_categories ?d1)\<rparr>))"
    using Cons.prems by (intro Cons.IH) (auto simp: image_iff)
  moreover have "IDB_put cat_id c (db_categories d) = fmupd (cat_id c) c (db_categories d)"
    by (simp add: IDB_put_def)
  ultimately show ?case
    using first by simp
qed

lemma forAwait_addVitalityBonus:
  assumes "distinct (map bonus_id bs)"
    and "\<forall>b \<in> set bs. bonus_id b |\<notin>| fmdom (db_vitality d)"
  shows "forAwait addVitalityBonus bs (Some d)
         = (Inr (), Some (d\<lparr>db_vitality := fold (IDB_put bonus_id) bs (db_vitality d)\<rparr>))"
  using assms
proof (induction bs arbitrary: d)
  case Nil
  then show ?case by simp
next
  case (Cons b bs)
  let ?d1 = "d\<lparr>db_vitality := fmupd (bonus_id b) b (db_vitality d)\<rparr>"
  have first: "addVitalityBonus b (Some d) = (Inr (), Some ?d1)"
    using Cons.prems by (simp add: addVitalityBonus_def IDB_add_def)
  have "forAwait addVitalityBonus bs (Some ?d1)
        = (Inr (), Some (?d1\<lparr>db_vitality := fold (IDB_put bonus_id) bs (db_vitality ?d1)\<rparr>))"
    using Cons.prems by (intro Cons.IH) (auto simp: image_iff)
  moreover have "IDB_put bonus_id b (db_vitality d) = fmupd (bonus_id b) b (db_vitality d)"
    by (simp add: IDB_put_def)
  ultimately show ?case
    using first by simp
qed

lemma forAwait_addCategory_v2:
  "forAwait addCategory_v2 cs (Some d)
     = (Inr (), Some (d\<lparr>db_categories := fold (IDB_put cat_id) cs (db_categories d)\<rparr>))"
  by (induction cs arbitrary: d) (simp_all add: addCategory_v2_def)

lemma forAwait_addVitalityBonus_v2:
  "forAwait addVitalityBonus_v2 bs (Some d)
     = (Inr (), Some (d\<lparr>db_vitality := fold (IDB_put bonus_id) bs (db_vitality d)\<rparr>))"
  by (induction bs arbitrary: d) (simp_all add: addVitalityBonus_v2_def)

lemma distinct_defaultCategories: "distinct (map cat_id defaultCategories)"
  by (simp add: defaultCategories_def)

lemma distinct_defaultVitalityBonuses: "distinct (map bonus_id defaultVitalityBonuses)"
  by (simp add: defaultVitalityBonuses_def)

lemma fold_put_defaultCategories: "fold (IDB_put cat_id) defaultCategories fmempty = seededCategories"
  by (simp add: fold_put_distinct [OF distinct_defaultCategories] seededCategories_def)

lemma fold_put_defaultVitalityBonuses:
  "fold (IDB_put bonus_id) defaultVitalityBonuses fmempty = seededVitality"
  by (simp add: fold_put_distinct [OF distinct_defaultVitalityBonuses] seededVitality_def)

lemma IDB_count_seededCategories: "IDB_count seededCategories = 6"
  by (simp add: IDB_count_def seededCategories_def defaultCategories_def fcard_finsert_if)

lemma IDB_count_seededVitality: "IDB_count seededVitality = 4"
  by (simp add: IDB_count_def seededVitality_def defaultVitalityBonuses_def fcard_finsert_if)

lemma initializeDefaultData_empty:
  assumes "db_categories d = fmempty" and "db_vitality d = fmempty"
  shows "initializeDefaultData (Some d)
         = (Inr (), Some (d\<lparr>db_categories := seededCategories, db_vitality := seededVitality\<rparr>))"
proof -
  let ?d1 = "d\<lparr>db_categories := seededCategories\<rparr>"
  have c: "forAwait addCategory defaultCategories (Some d) = (Inr (), Some ?d1)"
    using forAwait_addCategory [OF distinct_defaultCategories, of d] assms(1)
    by (simp add: fold_put_defaultCategories)
  have v: "forAwait addVitalityBonus defaultVitalityBonuses (Some ?d1)
           = (Inr (), Some (?d1\<lparr>db_vitality := seededVitality\<rparr>))"
    using forAwait_addVitalityBonus [OF distinct_defaultVitalityBonuses, of ?d1] assms(2)
    by (simp add: fold_put_defaultVitalityBonuses)
  show ?thesis
    using assms c v
    by (simp add: initializeDefaultData_def await_def getCount_def IDB_count_0_iff)
qed

lemma initializeDefaultData_v2_empty:
  assumes "db_categories d = fmempty" and "db_vitality d = fmempty"
  shows "initializeDefaultData_v2 (Some d)
         = (Inr (), Some (d\<lparr>db_categories := seededCategories, db_vitality := seededVitality\<rparr>))"
  using assms
  by (simp add: initializeDefaultData_v2_def await_def getCount_def IDB_count_0_iff
        forAwait_addCategory_v2 forAwait_addVitalityBonus_v2
        fold_put_defaultCategories fold_put_defaultVitalityBonuses)

lemma initializeDefaultData_nonempty:
  assumes "db_categories d \<noteq> fmempty" and "db_vitality d \<noteq> fmempty"
  shows "initializeDefaultData (Some d) = (Inr (), Some d)"
    and "initializeDefaultData_v2 (Some d) = (Inr (), Some d)"
  using assms
  by (simp_all add: initializeDefaultData_def initializeDefaultData_v2_def await_def getCount_def
        IDB_count_0_iff)

lemma seeded_nonempty: "seededCategories \<noteq> fmempty" "seededVitality \<noteq> fmempty"
  using IDB_count_seededCategories IDB_count_seededVitality IDB_count_0_iff
  by (metis zero_neq_numeral)+

text \<open>The operations on a store keep every record under its own id.\<close>

lemma keyed_empty: "keyed keyPath fmempty"
  by (simp add: keyed_def)

lemma keyed_put: "keyed keyPath store \<Longrightarrow> keyed keyPath (IDB_put keyPath v store)"
  by (auto simp: keyed_def IDB_put_def)

lemma keyed_add: "keyed keyPath store \<Longrightarrow> IDB_add keyPath v store = Inr store' \<Longrightarrow> keyed keyPath store'"
  by (auto simp: keyed_def IDB_add_def split: if_splits)

lemma keyed_delete: "keyed keyPath store \<Longrightarrow> keyed keyPath (IDB_delete key store)"
  by (auto simp: keyed_def IDB_delete_def)

lemma wellKeyed_freshDatabase: "wellKeyed freshDatabase"
  by (simp add: wellKeyed_def freshDatabase_def keyed_empty)

lemma exampleStore_reachable:
  "addActivity exampleDeepWork (Some freshDatabase) = (Inr (), Some exampleStore)"
  by (simp add: addActivity_def IDB_add_def freshDatabase_def exampleStore_def exampleDeepWork_def)






lemma act_id_jsonActivity [simp]: "act_id (jsonActivity toISOString a) = act_id a"
  by (simp add: jsonActivity_def)

lemma act_date_jsonActivity [simp]: "act_date (jsonActivity toISOString a) = act_date a"
  by (simp add: jsonActivity_def)

lemma cat_id_jsonCategory [simp]: "cat_id (jsonCategory c) = cat_id c"
  by (simp add: jsonCategory_def)

lemma bonus_id_jsonBonus [simp]: "bonus_id (jsonBonus b) = bonus_id b"
  by (simp add: jsonBonus_def)

lemma insort_key_map:
  "insort_key k (f x) (map f ys) = map f (insort_key (\<lambda>a. k (f a)) x ys)"
  by (induction ys) simp_all

lemma sort_key_map: "sort_key k (map f xs) = map f (sort_key (\<lambda>a. k (f a)) xs)"
  by (induction xs) (simp_all add: insort_key_map)





text \<open>No write operation of version 1 touches the store \<^verbatim>\<open>metrics\<close>.\<close>

lemma writes_keep_metrics:
  "map_option db_metrics (snd (addCategory category (Some d))) = Some (db_metrics d)"
  "map_option db_metrics (snd (addVitalityBonus bonus (Some d))) = Some (db_metrics d)"
  "map_option db_metrics (snd (addActivity activity (Some d))) = Some (db_metrics d)"
  "map_option db_metrics (snd (updateActivity activity (Some d))) = Some (db_metrics d)"
  "map_option db_metrics (snd (deleteActivity activityId (Some d))) = Some (db_metrics d)"
  "map_option db_metrics (snd (addVitalityEntry entry (Some d))) = Some (db_metrics d)"
  "map_option db_metrics (snd (updateVitalityEntry entry (Some d))) = Some (db_metrics d)"
  by (simp_all add: addCategory_def addVitalityBonus_def addActivity_def updateActivity_def
        deleteActivity_def addVitalityEntry_def updateVitalityEntry_def split: sum.splits)


section \<open>Claims about the entity store\<close>




text \<open>
  C6 (idempotent seeding). On a store whose categories and vitality bonuses are both empty,
  \<^verbatim>\<open>initializeDefaultData\<close> of either version succeeds and leaves exactly the default
  categories and bonuses in the two stores, each once, under its id. A second call, and
  any call on a store in which both collections are non-empty, succeeds and changes
  nothing. (The two emptiness checks are separate: were only one of the collections empty,
  that one would be seeded.)
\<close>

theorem initializeDefaultData_idempotent:
  "(db_categories d = fmempty \<and> db_vitality d = fmempty \<longrightarrow>
      initializeDefaultData (Some d)
        = (Inr (), Some (d\<lparr>db_categories := seededCategories, db_vitality := seededVitality\<rparr>))
      \<and> initializeDefaultData_v2 (Some d)
        = (Inr (), Some (d\<lparr>db_categories := seededCategories, db_vitality := seededVitality\<rparr>)))
   \<and> initializeDefaultData (Some (d\<lparr>db_categories := seededCategories, db_vitality := seededVitality\<rparr>))
        = (Inr (), Some (d\<lparr>db_categories := seededCategories, db_vitality := seededVitality\<rparr>))
   \<and> initializeDefaultData_v2 (Some (d\<lparr>db_categories := seededCategories, db_vitality := seededVitality\<rparr>))
        = (Inr (), Some (d\<lparr>db_categories := seededCategories, db_vitality := seededVitality\<rparr>))
   \<and> (db_categories d \<noteq> fmempty \<and> db_vitality d \<noteq> fmempty \<longrightarrow>
      initializeDefaultData (Some d) = (Inr (), Some d)
      \<and> initializeDefaultData_v2 (Some d) = (Inr (), Some d))
   \<and> IDB_count seededCategories = length defaultCategories
   \<and> IDB_count seededVitality = length defaultVitalityBonuses
   \<and> fmran seededCategories = fset_of_list defaultCategories
   \<and> fmran seededVitality = fset_of_list defaultVitalityBonuses"
proof (intro conjI impI)
  let ?s = "d\<lparr>db_categories := seededCategories, db_vitality := seededVitality\<rparr>"
  have ne: "db_categories ?s \<noteq> fmempty" "db_vitality ?s \<noteq> fmempty"
    by (simp_all add: seeded_nonempty)
  show "initializeDefaultData (Some ?s) = (Inr (), Some ?s)"
    using ne by (rule initializeDefaultData_nonempty)
  show "initializeDefaultData_v2 (Some ?s) = (Inr (), Some ?s)"
    using ne by (rule initializeDefaultData_nonempty)
next
  assume "db_categories d = fmempty \<and> db_vitality d = fmempty"
  then show "initializeDefaultData (Some d)
        = (Inr (), Some (d\<lparr>db_categories := seededCategories, db_vitality := seededVitality\<rparr>))"
    by (simp add: initializeDefaultData_empty)
next
  assume "db_categories d = fmempty \<and> db_vitality d = fmempty"
  then show "initializeDefaultData_v2 (Some d)
        = (Inr (), Some (d\<lparr>db_categories := seededCategories, db_vitality := seededVitality\<rparr>))"
    by (simp add: initializeDefaultData_v2_empty)
next
  assume "db_categories d \<noteq> fmempty \<and> db_vitality d \<noteq> fmempty"
  then show "initializeDefaultData (Some d) = (Inr (), Some d)"
    by (simp add: initializeDefaultData_nonempty)
next
  assume "db_categories d \<noteq> fmempty \<and> db_vitality d \<noteq> fmempty"
  then show "initializeDefaultData_v2 (Some d) = (Inr (), Some d)"
    by (simp add: initializeDefaultData_nonempty)
next
  show "IDB_count seededCategories = length defaultCategories"
    by (simp add: IDB_count_seededCategories) (simp add: defaultCategories_def)
  show "IDB_count seededVitality = length defaultVitalityBonuses"
    by (simp add: IDB_count_seededVitality) (simp add: defaultVitalityBonuses_def)
  show "fmran seededCategories = fset_of_list defaultCategories"
    unfolding seededCategories_def using distinct_defaultCategories
    by (rule fmran_fmap_of_list_keyed)
  show "fmran seededVitality = fset_of_list defaultVitalityBonuses"
    unfolding seededVitality_def using distinct_defaultVitalityBonuses
    by (rule fmran_fmap_of_list_keyed)
qed

theorem initializeDefaultData_idempotent_witness:
  "db_categories freshDatabase = fmempty \<and> db_vitality freshDatabase = fmempty
   \<and> initializeDefaultData (Some freshDatabase)
       = (Inr (), Some (freshDatabase\<lparr>db_categories := seededCategories, db_vitality := seededVitality\<rparr>))
   \<and> db_categories (freshDatabase\<lparr>db_categories := seededCategories, db_vitality := seededVitality\<rparr>)
       \<noteq> fmempty
   \<and> db_vitality (freshDatabase\<lparr>db_categories := seededCategories, db_vitality := seededVitality\<rparr>)
       \<noteq> fmempty
   \<and> initializeDefaultData
        (Some (freshDatabase\<lparr>db_categories := seededCategories, db_vitality := seededVitality\<rparr>))
       = (Inr (), Some (freshDatabase\<lparr>db_categories := seededCategories, db_vitality := seededVitality\<rparr>))"
  using initializeDefaultData_idempotent [of freshDatabase]
  by (simp add: freshDatabase_def seeded_nonempty)

text \<open>
  C7 (insert with a taken id), as amended. Version 1 writes a new activity, category or
  vitality entry with \<^verbatim>\<open>store.add\<close>: when the id is already in the collection the call is
  rejected with the ConstraintError of the request and the store is unchanged, and when
  the id is fresh it succeeds and the record is stored under its id. Version 2 writes
  through \<^verbatim>\<open>writeToStore\<close>, that is \<^verbatim>\<open>store.put\<close>: on an opened database the call always
  succeeds and the record replaces whatever was stored under its id.
\<close>

theorem add_duplicate_key:
  "(act_id activity |\<in>| fmdom (db_activities d) \<longrightarrow>
      addActivity activity (Some d) = (Inl ConstraintError, Some d))
   \<and> (act_id activity |\<notin>| fmdom (db_activities d) \<longrightarrow>
      addActivity activity (Some d)
        = (Inr (), Some (d\<lparr>db_activities := fmupd (act_id activity) activity (db_activities d)\<rparr>)))
   \<and> (cat_id category |\<in>| fmdom (db_categories d) \<longrightarrow>
      addCategory category (Some d) = (Inl ConstraintError, Some d))
   \<and> (cat_id category |\<notin>| fmdom (db_categories d) \<longrightarrow>
      addCategory category (Some d)
        = (Inr (), Some (d\<lparr>db_categories := fmupd (cat_id category) category (db_categories d)\<rparr>)))
   \<and> (ve_id entry |\<in>| fmdom (db_vitalityEntries d) \<longrightarrow>
      addVitalityEntry entry (Some d) = (Inl ConstraintError, Some d))
   \<and> (ve_id entry |\<notin>| fmdom (db_vitalityEntries d) \<longrightarrow>
      addVitalityEntry entry (Some d)
        = (Inr (), Some (d\<lparr>db_vitalityEntries := fmupd (ve_id entry) entry (db_vitalityEntries d)\<rparr>)))
   \<and> addActivity_v2 activity (Some d)
        = (Inr (), Some (d\<lparr>db_activities := fmupd (act_id activity) activity (db_activities d)\<rparr>))
   \<and> addCategory_v2 category (Some d)
        = (Inr (), Some (d\<lparr>db_categories := fmupd (cat_id category) category (db_categories d)\<rparr>))
   \<and> addVitalityEntry_v2 entry (Some d)
        = (Inr (), Some (d\<lparr>db_vitalityEntries := fmupd (ve_id entry) entry (db_vitalityEntries d)\<rparr>))"
  by (simp add: addActivity_def addCategory_def addVitalityEntry_def IDB_add_def
        addActivity_v2_def addCategory_v2_def addVitalityEntry_v2_def IDB_put_def)

theorem add_duplicate_key_witness:
  "act_id exampleDeepWork |\<in>| fmdom (db_activities exampleStore)
   \<and> addActivity exampleDeepWork (Some exampleStore) = (Inl ConstraintError, Some exampleStore)
   \<and> act_id exampleDistraction |\<notin>| fmdom (db_activities exampleStore)
   \<and> addActivity exampleDistraction (Some exampleStore)
       = (Inr (), Some (exampleStore\<lparr>db_activities :=
            fmupd ''a2'' exampleDistraction (db_activities exampleStore)\<rparr>))"
  using add_duplicate_key [of exampleDeepWork exampleStore]
    add_duplicate_key [of exampleDistraction exampleStore]
  by (simp add: exampleStore_def exampleDeepWork_def exampleDistraction_def)

text \<open>
  The claim as stated fails in version 2: adding a renamed copy of an activity whose id is
  in the store succeeds and changes the store.
\<close>

theorem add_v2_replaces_counterexample:
  "act_id (exampleDeepWork\<lparr>act_name := ''Renamed''\<rparr>) |\<in>| fmdom (db_activities exampleStore)
   \<and> fst (addActivity_v2 (exampleDeepWork\<lparr>act_name := ''Renamed''\<rparr>) (Some exampleStore)) = Inr ()
   \<and> snd (addActivity_v2 (exampleDeepWork\<lparr>act_name := ''Renamed''\<rparr>) (Some exampleStore))
       \<noteq> Some exampleStore"
proof -
  let ?new = "exampleDeepWork\<lparr>act_name := ''Renamed''\<rparr>"
  have "fmlookup (db_activities (exampleStore\<lparr>db_activities := IDB_put act_id ?new (db_activities exampleStore)\<rparr>)) ''a1''
        \<noteq> fmlookup (db_activities exampleStore) ''a1''"
    by (simp add: exampleStore_def exampleDeepWork_def IDB_put_def)
  then have "exampleStore\<lparr>db_activities := IDB_put act_id ?new (db_activities exampleStore)\<rparr> \<noteq> exampleStore"
    by metis
  then show ?thesis
    by (simp add: addActivity_v2_def) (simp add: exampleStore_def exampleDeepWork_def)
qed




end
